theory Spec2Isabelle
  imports Main
begin

section \<open>Python string operations used by the program\<close>

text \<open>
  The program is Python 2; its strings are byte strings, modelled as \<open>string\<close>
  (a list of 8-bit characters). The built-in methods the program calls are written out
  here: \<open>s.lower()\<close>, \<open>s.count(sub)\<close>, \<open>s.split(sep)\<close>, \<open>s.replace(old, new)\<close>,
  \<open>sub in s\<close>, \<open>s.split()\<close>, \<open>s.splitlines()\<close> and \<open>str(n)\<close> on an integer.
\<close>

definition lower_char :: "char \<Rightarrow> char" where
  "lower_char c =
     (case map_of (zip ''ABCDEFGHIJKLMNOPQRSTUVWXYZ'' ''abcdefghijklmnopqrstuvwxyz'') c of
        None \<Rightarrow> c
      | Some d \<Rightarrow> d)"

text \<open>\<open>s.lower()\<close>: the ASCII letters A-Z are mapped to a-z, every other byte is kept.\<close>

definition str_lower :: "string \<Rightarrow> string" where
  "str_lower s = map lower_char s"

text \<open>A string is fully lowercased when \<open>lower\<close> leaves it as it is.\<close>

definition is_lowercased :: "string \<Rightarrow> bool" where
  "is_lowercased s \<longleftrightarrow> str_lower s = s"

text \<open>\<open>s.startswith(p)\<close>.\<close>

fun startswith :: "string \<Rightarrow> string \<Rightarrow> bool" where
  "startswith s [] = True"
| "startswith [] (p # ps) = False"
| "startswith (c # cs) (p # ps) = (c = p \<and> startswith cs ps)"

text \<open>\<open>sub in s\<close>: \<open>sub\<close> occurs in \<open>s\<close> as a contiguous substring.\<close>

fun str_contains :: "string \<Rightarrow> string \<Rightarrow> bool" where
  "str_contains [] sub = (sub = [])"
| "str_contains (c # cs) sub = (startswith (c # cs) sub \<or> str_contains cs sub)"

text \<open>
  \<open>s.count(sub)\<close>: the number of non-overlapping occurrences of \<open>sub\<close>, scanning from the
  left (for the empty \<open>sub\<close> Python answers \<open>len(s) + 1\<close>).
\<close>

function str_count :: "string \<Rightarrow> string \<Rightarrow> nat" where
  "str_count [] sub = (if sub = [] then 1 else 0)"
| "str_count (c # cs) sub =
     (if sub = [] then Suc (str_count cs sub)
      else if startswith (c # cs) sub then Suc (str_count (drop (length sub) (c # cs)) sub)
      else str_count cs sub)"
  by pat_completeness auto
termination
  by (relation "measure (\<lambda>(s, sub). length s)") (auto simp: neq_Nil_conv)

text \<open>
  \<open>s.split(sep)\<close> for a non-empty separator: the pieces between the non-overlapping
  occurrences of \<open>sep\<close>, scanning from the left. Python raises ValueError for an empty
  separator; the program only ever passes the constant \<open>'//'\<close>, and the model treats an
  empty separator as one that never occurs.
\<close>

function str_split :: "string \<Rightarrow> string \<Rightarrow> string list" where
  "str_split [] sep = [[]]"
| "str_split (c # cs) sep =
     (if sep \<noteq> [] \<and> startswith (c # cs) sep then [] # str_split (drop (length sep) (c # cs)) sep
      else (case str_split cs sep of
              [] \<Rightarrow> [[c]]
            | w # ws \<Rightarrow> (c # w) # ws))"
  by pat_completeness auto
termination
  by (relation "measure (\<lambda>(s, sep). length s)") (auto simp: neq_Nil_conv)

text \<open>
  \<open>s.replace(old, new)\<close> for a non-empty \<open>old\<close>: every non-overlapping occurrence,
  scanning from the left, is replaced. (The program passes the constants \<open>'f12a'\<close> and
  \<open>'f12b'\<close>; an empty \<open>old\<close> is treated as one that never occurs.)
\<close>

function str_replace :: "string \<Rightarrow> string \<Rightarrow> string \<Rightarrow> string" where
  "str_replace [] old new = []"
| "str_replace (c # cs) old new =
     (if old \<noteq> [] \<and> startswith (c # cs) old
      then new @ str_replace (drop (length old) (c # cs)) old new
      else c # str_replace cs old new)"
  by pat_completeness auto
termination
  by (relation "measure (\<lambda>(s, old, new). length s)") (auto simp: neq_Nil_conv)

text \<open>\<open>xs[i]\<close> on a list, for a non-negative index: IndexError is \<open>None\<close>.\<close>

fun index :: "'a list \<Rightarrow> nat \<Rightarrow> 'a option" where
  "index [] i = None"
| "index (x # xs) 0 = Some x"
| "index (x # xs) (Suc i) = index xs i"

text \<open>
  The whitespace of \<open>s.split()\<close> on a byte string: space, tab, line feed, vertical tab,
  form feed and carriage return.
\<close>

definition is_space :: "char \<Rightarrow> bool" where
  "is_space c \<longleftrightarrow> c \<in> set [CHR '' '', CHR 0x09, CHR 0x0A, CHR 0x0B, CHR 0x0C, CHR 0x0D]"

text \<open>
  Cutting a string at every character that satisfies \<open>P\<close>; the pieces may be empty.
\<close>

fun cut_at :: "(char \<Rightarrow> bool) \<Rightarrow> string \<Rightarrow> string list" where
  "cut_at P [] = [[]]"
| "cut_at P (c # cs) =
     (if P c then [] # cut_at P cs
      else (case cut_at P cs of
              [] \<Rightarrow> [[c]]
            | w # ws \<Rightarrow> (c # w) # ws))"

text \<open>\<open>s.split()\<close>: the maximal runs of non-whitespace characters.\<close>

definition split_whitespace :: "string \<Rightarrow> string list" where
  "split_whitespace s = filter (\<lambda>w. w \<noteq> []) (cut_at is_space s)"

text \<open>
  \<open>s.splitlines()\<close>, cutting at line feeds. A last empty piece, which Python drops, is
  kept: it has no field and so matches no job identifier. A carriage return before a
  line feed stays on its line, where it is whitespace.
\<close>

definition splitlines :: "string \<Rightarrow> string list" where
  "splitlines s = cut_at (\<lambda>c. c = CHR 0x0A) s"

text \<open>\<open>str(n)\<close> on an integer: the decimal digits, with a leading minus sign when negative.\<close>

definition digit_char :: "nat \<Rightarrow> char" where
  "digit_char d = (case index ''0123456789'' d of None \<Rightarrow> CHR ''?'' | Some c \<Rightarrow> c)"

fun str_of_nat :: "nat \<Rightarrow> string" where
  "str_of_nat n =
     (if n < 10 then [digit_char n] else str_of_nat (n div 10) @ [digit_char (n mod 10)])"

declare str_of_nat.simps [simp del]

definition str_of_int :: "int \<Rightarrow> string" where
  "str_of_int i = (if i < 0 then CHR ''-'' # str_of_nat (nat (- i)) else str_of_nat (nat i))"

text \<open>
  Reading a decimal numeral back: the value of a digit and of a string of digits. They
  are used to show that \<open>str\<close> gives different integers different strings.
\<close>

definition digit_val :: "char \<Rightarrow> nat" where
  "digit_val c =
     (case map_of (zip ''0123456789'' [0, 1, 2, 3, 4, 5, 6, 7, 8, 9]) c of
        None \<Rightarrow> 0
      | Some d \<Rightarrow> d)"

definition nat_of_str :: "string \<Rightarrow> nat" where
  "nat_of_str s = foldl (\<lambda>a c. 10 * a + digit_val c) 0 s"

section \<open>The job-status parser\<close>

text \<open>
  The parser \<open>check_job_status_in_stdout\<close> lives in the module \<open>arc.job.ssh\<close>; the test
  \<open>TestSSH.test_check_job_status_in_stdout\<close> calls it with a job identifier, the text of
  the queue-status command's output and a server name.
\<close>

datatype job_status = Queued | Running | Done | Errored

text \<open>A job identifier is passed as an integer (as the test does) or as text.\<close>

datatype job_id = IntId int | StrId string

text \<open>The string form of the identifier, \<open>str(job_id)\<close>.\<close>

fun str_of_job_id :: "job_id \<Rightarrow> string" where
  "str_of_job_id (IntId n) = str_of_int n"
| "str_of_job_id (StrId s) = s"

text \<open>
  Modelled from the spec: the job-ID field of a line of the queue snapshot, its leading
  whitespace-delimited field (the module \<open>arc.job.ssh\<close> that reads it is not among the
  sources). A line without any field has none.
\<close>

definition line_job_id :: "string \<Rightarrow> string option" where
  "line_job_id l = index (split_whitespace l) 0"

text \<open>
  Modelled from the spec: the state code of a line, the fifth whitespace-delimited column
  of the queue table (job-ID, prior, name, user, state, ...); the module \<open>arc.job.ssh\<close>
  that reads it is not among the sources.
\<close>

definition line_state_code :: "string \<Rightarrow> string option" where
  "line_state_code l = index (split_whitespace l) 4"

text \<open>
  Modelled from the spec: a line matches a job identifier when its job-ID field equals
  the string form of the identifier (the comparison of \<open>arc.job.ssh\<close>, which is not
  among the sources).
\<close>

definition line_matches :: "job_id \<Rightarrow> string \<Rightarrow> bool" where
  "line_matches jid l \<longleftrightarrow> line_job_id l = Some (str_of_job_id jid)"

text \<open>
  Modelled from the spec: the state-code mapping of \<open>arc.job.ssh\<close>, which is not among
  the sources. Code \<open>r\<close> is running and code \<open>e\<close> is errored. The spec leaves every other
  code (and a matching line without a state column) to the scheduler software of the
  server; that treatment is the parameter \<open>other\<close>.
\<close>

definition status_of_code :: "(string option \<Rightarrow> job_status) \<Rightarrow> string option \<Rightarrow> job_status" where
  "status_of_code other code =
     (if code = Some ''r'' then Running
      else if code = Some ''e'' then Errored
      else other code)"

text \<open>
  Modelled from the spec: \<open>check_job_status_in_stdout\<close> of \<open>arc.job.ssh\<close>, which is not
  among the sources. The snapshot is scanned line by line; the first line that matches
  the identifier decides through its state code; when no line matches, the job is done.
\<close>

definition check_job_status_in_stdout ::
  "(string option \<Rightarrow> job_status) \<Rightarrow> job_id \<Rightarrow> string \<Rightarrow> job_status" where
  "check_job_status_in_stdout other jid stdout =
     (case find (line_matches jid) (splitlines stdout) of
        None \<Rightarrow> Done
      | Some l \<Rightarrow> status_of_code other (line_state_code l))"

text \<open>
  The queue snapshot of the test \<open>TestSSH.test_check_job_status_in_stdout\<close>, line by
  line: the header, the rule under it, and the rows of the jobs 582682 (state \<open>e\<close>),
  588334 and 588345 (state \<open>r\<close>).
\<close>

definition test_header :: string where
  "test_header =
     ''job-ID  prior   name       user         state submit/start at     queue                          slots ja-task-ID ''"

definition test_rule :: string where
  "test_rule =
     ''-----------------------------------------------------------------------------------------------------------------''"

definition test_row_582682 :: string where
  "test_row_582682 =
     '' 582682 0.45451 a9654      alongd       e     04/17/2019 16:22:14 long5@node93.cluster              48''"

definition test_row_588334 :: string where
  "test_row_588334 =
     '' 588334 0.45451 pf1005a    alongd       r     05/07/2019 16:24:31 long3@node67.cluster              48''"

definition test_row_588345 :: string where
  "test_row_588345 =
     '' 588345 0.45451 a14121     alongd       r     05/08/2019 02:11:42 long3@node69.cluster              48    ''"

definition test_stdout :: string where
  "test_stdout =
     test_header @ [CHR 0x0A] @ test_rule @ [CHR 0x0A] @ test_row_582682 @ [CHR 0x0A] @
     test_row_588334 @ [CHR 0x0A] @ test_row_588345"

text \<open>
  A snapshot in which one job identifier occurs on two rows, first with state code \<open>e\<close>
  and then with state code \<open>r\<close>.
\<close>

definition dup_row_582682 :: string where
  "dup_row_582682 =
     '' 582682 0.45451 a9654      alongd       r     05/07/2019 16:24:31 long3@node67.cluster              48''"

definition dup_stdout :: string where
  "dup_stdout = test_row_582682 @ [CHR 0x0A] @ dup_row_582682"

text \<open>A snapshot that contains only job 582682.\<close>

definition single_stdout :: string where
  "single_stdout = test_row_582682"

text \<open>\<open>a\<close> occurs in \<open>b\<close> and is not the whole of it.\<close>

definition proper_substring :: "string \<Rightarrow> string \<Rightarrow> bool" where
  "proper_substring a b \<longleftrightarrow> str_contains b a \<and> a \<noteq> b"

section \<open>The main orchestrator: \<open>arc/main.py\<close>\<close>

subsection \<open>Values, errors and the log\<close>

text \<open>
  The entries of the species and reaction lists are arbitrary Python objects. An RMG
  \<open>Species\<close> is represented by its label, an \<open>ARCSpecies\<close> by its \<open>is_ts\<close> flag and its
  label, an RMG \<open>Reaction\<close> by its printed form, and an object of any other type by the
  name of its type. (The three classes are imported from \<open>rmgpy\<close> and \<open>arc.species\<close>.)
\<close>

datatype pyobj =
    Species string
  | ARCSpecies bool string
  | Reaction string
  | Other string

fun is_Species :: "pyobj \<Rightarrow> bool" where
  "is_Species (Species l) = True"
| "is_Species _ = False"

fun is_ARCSpecies :: "pyobj \<Rightarrow> bool" where
  "is_ARCSpecies (ARCSpecies ts l) = True"
| "is_ARCSpecies _ = False"

fun is_Reaction :: "pyobj \<Rightarrow> bool" where
  "is_Reaction (Reaction r) = True"
| "is_Reaction _ = False"

text \<open>The \<open>label\<close> attribute of a species object.\<close>

fun label :: "pyobj \<Rightarrow> string" where
  "label (Species l) = l"
| "label (ARCSpecies ts l) = l"
| "label _ = []"

text \<open>
  The messages of the \<open>InputError\<close>s that \<open>main.py\<close> raises, each with the value that the
  source formats into it:
  \<^item> \<open>Level_of_theory_seems_wrong\<close>: line 90, with the level of theory;
  \<^item> \<open>Specify_either_composite_or_level\<close>: line 130;
  \<^item> \<open>No_model_chemistry_for_composite\<close>: line 137, with the composite method;
  \<^item> \<open>Not_RMG_Species\<close>: line 195, with the offending entry (the source prints its type);
  \<^item> \<open>Missing_label\<close>: line 198, with the species;
  \<^item> \<open>No_model_chemistry\<close>: line 341.
\<close>

datatype input_error =
    Level_of_theory_seems_wrong string
  | Specify_either_composite_or_level
  | No_model_chemistry_for_composite string
  | Not_RMG_Species pyobj
  | Missing_label pyobj
  | No_model_chemistry

text \<open>
  The \<open>ValueError\<close>s of \<open>execute\<close>: line 210 (an entry of the species list that is not an
  \<open>ARCSpecies\<close>) and line 217 (an entry of \<open>rxn_list\<close> that is not a \<open>Reaction\<close>; the
  exception itself carries no message, the entry is named in the log).
\<close>

datatype value_error =
    Not_ARCSpecies pyobj
  | Not_Reaction

text \<open>
  The exceptions of the model. \<open>KeyError\<close> is a key missing from
  \<open>default_levels_of_theory\<close>, \<open>AttributeError\<close> is an attribute read before it was
  assigned, \<open>IndexError\<close> is a list index out of range.
\<close>

datatype error =
    InputError input_error
  | ValueError value_error
  | KeyError string
  | AttributeError string
  | IndexError

text \<open>
  The log records of level WARNING and ERROR that \<open>main.py\<close> emits (the records of level
  INFO are not modelled):
  \<^item> \<open>Warning_no_fine_grid\<close>: line 76;
  \<^item> \<open>Warning_no_rotor_scans\<close>: line 80;
  \<^item> \<open>Warning_no_BAC\<close>: line 322, with the model chemistry;
  \<^item> \<open>Warning_model_chemistry_from_sp\<close>: line 332, with the model chemistry and the sp level;
  \<^item> \<open>Error_not_reaction\<close>: line 216, with the offending entry.
\<close>

datatype log_record =
    Warning_no_fine_grid
  | Warning_no_rotor_scans
  | Warning_no_BAC string
  | Warning_model_chemistry_from_sp string string
  | Error_not_reaction pyobj

subsection \<open>The arguments of the constructor and the object\<close>

text \<open>
  The keyword arguments of \<open>ARC.__init__\<close> (\<open>verbose\<close>, which only sets the level of the
  console handler, is left out).
\<close>

record arc_args =
  project :: string
  rmg_species_list :: "pyobj list"
  arc_species_list :: "pyobj list"
  rxn_list :: "pyobj list"
  level_of_theory :: string
  conformer_level :: string
  composite_method :: string
  opt_level :: string
  freq_level :: string
  sp_level :: string
  scan_level :: string
  fine :: bool
  generate_conformers :: bool
  scan_rotors :: bool
  use_bac :: bool
  model_chemistry :: string

text \<open>
  The \<open>ARC\<close> object together with the log. The attributes that \<open>__init__\<close> assigns in its
  first lines are plain fields; an attribute that is assigned later, or only on some
  paths, is an option, \<open>None\<close> while it is unassigned. \<open>self_scheduler\<close> is \<open>Some False\<close>
  once \<open>self.scheduler = None\<close> has run. The clock (\<open>t0\<close>), the output directory, the
  empty \<open>output\<close> dictionary and the log handlers are left out.
\<close>

record arc =
  self_project :: string
  self_fine :: bool
  self_generate_conformers :: bool
  self_scan_rotors :: bool
  self_use_bac :: bool
  self_model_chemistry :: string
  self_conformer_level :: "string option"
  self_composite_method :: "string option"
  self_opt_level :: "string option"
  self_freq_level :: "string option"
  self_sp_level :: "string option"
  self_scan_level :: "string option"
  self_arc_species_list :: "pyobj list option"
  self_rmg_species_list :: "pyobj list option"
  self_rxn_list :: "pyobj list option"
  self_scheduler :: "bool option"
  logged :: "log_record list"

text \<open>
  A step of the program either returns a value or raises; a raise keeps the object as
  it is at that moment, so that what had been assigned before the raise can be read off.
\<close>

type_synonym 'a result = "(error \<times> arc) + 'a"

text \<open>
  \<open>default_levels_of_theory[key]\<close>. The dictionary is a constant of \<open>arc.settings\<close> and a
  parameter of the model.
\<close>

definition default_level :: "(string \<rightharpoonup> string) \<Rightarrow> string \<Rightarrow> arc \<Rightarrow> string result" where
  "default_level dflt key self =
     (case dflt key of
        None \<Rightarrow> Inl (KeyError key, self)
      | Some v \<Rightarrow> Inr v)"

text \<open>Reading \<open>self.composite_method\<close>.\<close>

definition get_composite_method :: "arc \<Rightarrow> string result" where
  "get_composite_method self =
     (case self_composite_method self of
        None \<Rightarrow> Inl (AttributeError ''composite_method'', self)
      | Some cm \<Rightarrow> Inr cm)"

subsection \<open>\<open>ARC.check_model_chemistry\<close> (lines 313 to 364)\<close>

text \<open>
  The model chemistries for which Arkane has bond additivity corrections. The source
  writes this list twice, at lines 318 to 321 and at lines 335 to 338.
\<close>

definition bac_model_chemistries :: "string list" where
  "bac_model_chemistries =
     [''cbs-qb3'', ''cbs-qb3-paraskevas'', ''ccsd(t)-f12/cc-pvdz-f12'',
      ''ccsd(t)-f12/cc-pvtz-f12'', ''ccsd(t)-f12/cc-pvqz-f12'',
      ''b3lyp/cbsb7'', ''b3lyp/6-311g(2d,d,p)'', ''b3lyp/6-311+g(3df,2p)'',
      ''b3lyp/6-31g**'']"

text \<open>The sp levels of line 331, which become a model chemistry by appending \<open>-f12\<close>.\<close>

definition f12_sp_levels :: "string list" where
  "f12_sp_levels = [''ccsd(t)-f12/cc-pvdz'', ''ccsd(t)-f12/cc-pvtz'', ''ccsd(t)-f12/cc-pvqz'']"

text \<open>The list of lines 348 to 360, consulted when \<open>use_bac\<close> is off.\<close>

definition aec_model_chemistries :: "string list" where
  "aec_model_chemistries =
     [''m06-2x/cc-pvtz'', ''g3'', ''m08so/mg3s*'', ''klip_1'', ''klip_2'', ''klip_3'', ''klip_2_cc'',
      ''ccsd(t)-f12/cc-pvdz-f12_h-tz'', ''ccsd(t)-f12/cc-pvdz-f12_h-qz'',
      ''ccsd(t)-f12/cc-pvdz-f12'', ''ccsd(t)-f12/cc-pvtz-f12'', ''ccsd(t)-f12/cc-pvqz-f12'',
      ''ccsd(t)-f12/cc-pcvdz-f12'', ''ccsd(t)-f12/cc-pcvtz-f12'', ''ccsd(t)-f12/cc-pcvqz-f12'',
      ''ccsd(t)-f12/cc-pvtz-f12(-pp)'', ''ccsd(t)/aug-cc-pvtz(-pp)'', ''ccsd(t)-f12/aug-cc-pvdz'',
      ''ccsd(t)-f12/aug-cc-pvtz'', ''ccsd(t)-f12/aug-cc-pvqz'', ''b-ccsd(t)-f12/cc-pvdz-f12'',
      ''b-ccsd(t)-f12/cc-pvtz-f12'', ''b-ccsd(t)-f12/cc-pvqz-f12'', ''b-ccsd(t)-f12/cc-pcvdz-f12'',
      ''b-ccsd(t)-f12/cc-pcvtz-f12'', ''b-ccsd(t)-f12/cc-pcvqz-f12'', ''b-ccsd(t)-f12/aug-cc-pvdz'',
      ''b-ccsd(t)-f12/aug-cc-pvtz'', ''b-ccsd(t)-f12/aug-cc-pvqz'', ''mp2_rmp2_pvdz'',
      ''mp2_rmp2_pvtz'', ''mp2_rmp2_pvqz'', ''ccsd-f12/cc-pvdz-f12'',
      ''ccsd(t)-f12/cc-pvdz-f12_noscale'', ''g03_pbepbe_6-311++g_d_p'', ''fci/cc-pvdz'',
      ''fci/cc-pvtz'', ''fci/cc-pvqz'', ''bmk/cbsb7'', ''bmk/6-311g(2d,d,p)'', ''b3lyp/6-31g**'',
      ''b3lyp/6-311+g(3df,2p)'', ''MRCI+Davidson/aug-cc-pV(T+d)Z'']"

text \<open>
  The local \<open>sp_level\<close> of lines 329 and 330: the sp level in lower case, with \<open>f12a\<close> and
  then \<open>f12b\<close> replaced by \<open>f12\<close>.
\<close>

definition normalized_sp_level :: "string \<Rightarrow> string" where
  "normalized_sp_level spl =
     str_replace (str_replace (str_lower spl) ''f12a'' ''f12'') ''f12b'' ''f12''"

text \<open>
  \<open>check_model_chemistry\<close>. With a model chemistry at hand it is put in lower case, and
  one outside the list of line 318 is only warned about. Without one, it is looked up
  from the sp level; the local \<open>model_chemistry\<close> of line 328 is empty when line 335 tests
  it, so that test is true.
\<close>

definition check_model_chemistry :: "arc \<Rightarrow> arc result" where
  "check_model_chemistry self =
     (if self_model_chemistry self \<noteq> [] then
        (let mc = str_lower (self_model_chemistry self) in
         Inr (self\<lparr>self_model_chemistry := mc,
                   logged := logged self @
                     (if mc \<notin> set bac_model_chemistries then [Warning_no_BAC mc] else [])\<rparr>))
      else
        (case self_sp_level self of
           None \<Rightarrow> Inl (AttributeError ''sp_level'', self)
         | Some spl \<Rightarrow>
             (let sp = normalized_sp_level spl in
              if sp \<in> set f12_sp_levels then
                Inr (self\<lparr>self_model_chemistry := sp @ ''-f12'',
                          logged := logged self @ [Warning_model_chemistry_from_sp (sp @ ''-f12'') sp]\<rparr>)
              else if sp \<in> set bac_model_chemistries then
                Inr (self\<lparr>self_model_chemistry := sp\<rparr>)
              else if self_use_bac self then
                Inl (InputError No_model_chemistry, self)
              else if sp \<in> set aec_model_chemistries then
                Inr (self\<lparr>self_model_chemistry := sp\<rparr>)
              else
                Inr (self\<lparr>self_model_chemistry := []\<rparr>))))"

subsection \<open>\<open>ARC.__init__\<close> (lines 57 to 204)\<close>

text \<open>
  Lines 62 to 87: the flags and the model chemistry are stored as they are given, and
  the two warnings about the fine grid and the rotor scans are logged. No level of
  theory is assigned yet.
\<close>

definition init_flags :: "arc_args \<Rightarrow> arc" where
  "init_flags args =
     \<lparr>self_project = project args,
      self_fine = fine args,
      self_generate_conformers = generate_conformers args,
      self_scan_rotors = scan_rotors args,
      self_use_bac = use_bac args,
      self_model_chemistry = model_chemistry args,
      self_conformer_level = None,
      self_composite_method = None,
      self_opt_level = None,
      self_freq_level = None,
      self_sp_level = None,
      self_scan_level = None,
      self_arc_species_list = None,
      self_rmg_species_list = None,
      self_rxn_list = None,
      self_scheduler = None,
      logged = (if \<not> fine args then [Warning_no_fine_grid] else []) @
               (if \<not> scan_rotors args then [Warning_no_rotor_scans] else [])\<rparr>"

text \<open>Lines 89 to 92: more than one \<open>//\<close> in the level of theory is refused.\<close>

definition init_check_level_of_theory :: "arc_args \<Rightarrow> arc \<Rightarrow> arc result" where
  "init_check_level_of_theory args self =
     (if 1 < str_count (level_of_theory args) ''//''
      then Inl (InputError (Level_of_theory_seems_wrong (level_of_theory args)), self)
      else Inr self)"

text \<open>Lines 94 to 103: the conformer level.\<close>

definition init_conformer_level :: "(string \<rightharpoonup> string) \<Rightarrow> arc_args \<Rightarrow> arc \<Rightarrow> arc result" where
  "init_conformer_level dflt args self =
     (if conformer_level args \<noteq> [] then
        Inr (self\<lparr>self_conformer_level := Some (str_lower (conformer_level args))\<rparr>)
      else if self_generate_conformers self then
        (case default_level dflt ''conformer'' self of
           Inl e \<Rightarrow> Inl e
         | Inr v \<Rightarrow> Inr (self\<lparr>self_conformer_level := Some (str_lower v)\<rparr>))
      else
        Inr (self\<lparr>self_conformer_level := Some []\<rparr>))"

text \<open>
  Lines 105 to 125: a level of theory was given. Without any \<open>/\<close> it is a composite
  method; with \<open>//\<close> it is split into the sp level (left) and the level of the geometry
  (right), which is used for opt and freq; otherwise it is used for all three.
\<close>

definition init_level_of_theory :: "arc_args \<Rightarrow> arc \<Rightarrow> arc result" where
  "init_level_of_theory args self =
     (let lot = level_of_theory args in
      if CHR ''/'' \<notin> set lot then
        Inr (self\<lparr>self_composite_method := Some (str_lower lot)\<rparr>)
      else if str_contains lot ''//'' then
        (case index (str_split (str_lower lot) ''//'') 1 of
           None \<Rightarrow> Inl (IndexError, self)
         | Some geo \<Rightarrow>
             (case index (str_split (str_lower lot) ''//'') 0 of
                None \<Rightarrow> Inl (IndexError, self\<lparr>self_opt_level := Some geo, self_freq_level := Some geo\<rparr>)
              | Some spl \<Rightarrow>
                  Inr (self\<lparr>self_opt_level := Some geo, self_freq_level := Some geo,
                            self_sp_level := Some spl\<rparr>)))
      else if CHR ''/'' \<in> set lot \<and> \<not> str_contains lot ''//'' then
        Inr (self\<lparr>self_opt_level := Some (str_lower lot), self_freq_level := Some (str_lower lot),
                  self_sp_level := Some (str_lower lot)\<rparr>)
      else Inr self)"

text \<open>
  Lines 127 to 138: no level of theory was given; the composite method. The test of
  line 129 compares the bound method \<open>level_of_theory.lower\<close> with a string, which is
  never equal, so it reduces to \<open>level_of_theory\<close> being non-empty.
\<close>

definition init_composite_method :: "arc_args \<Rightarrow> arc \<Rightarrow> arc result" where
  "init_composite_method args self =
     (let cm = str_lower (composite_method args);
          self1 = self\<lparr>self_composite_method := Some cm\<rparr> in
      if cm \<noteq> [] then
        (if level_of_theory args \<noteq> [] then
           Inl (InputError Specify_either_composite_or_level, self1)
         else if cm = ''cbs-qb3'' then
           Inr (self1\<lparr>self_model_chemistry := cm\<rparr>)
         else if self_use_bac self1 then
           Inl (InputError (No_model_chemistry_for_composite cm), self1)
         else Inr self1)
      else Inr self1)"

text \<open>Lines 140 to 149: the opt level.\<close>

definition init_opt_level :: "(string \<rightharpoonup> string) \<Rightarrow> arc_args \<Rightarrow> arc \<Rightarrow> arc result" where
  "init_opt_level dflt args self =
     (if opt_level args \<noteq> [] then
        Inr (self\<lparr>self_opt_level := Some (str_lower (opt_level args))\<rparr>)
      else
        (case get_composite_method self of
           Inl e \<Rightarrow> Inl e
         | Inr cm \<Rightarrow>
             if cm = [] then
               (case default_level dflt ''opt'' self of
                  Inl e \<Rightarrow> Inl e
                | Inr v \<Rightarrow> Inr (self\<lparr>self_opt_level := Some (str_lower v)\<rparr>))
             else Inr (self\<lparr>self_opt_level := Some []\<rparr>)))"

text \<open>Lines 151 to 167: the freq level.\<close>

definition init_freq_level :: "(string \<rightharpoonup> string) \<Rightarrow> arc_args \<Rightarrow> arc \<Rightarrow> arc result" where
  "init_freq_level dflt args self =
     (if freq_level args \<noteq> [] then
        Inr (self\<lparr>self_freq_level := Some (str_lower (freq_level args))\<rparr>)
      else
        (case get_composite_method self of
           Inl e \<Rightarrow> Inl e
         | Inr cm \<Rightarrow>
             if cm = [] then
               (if opt_level args \<noteq> [] then
                  Inr (self\<lparr>self_freq_level := Some (str_lower (opt_level args))\<rparr>)
                else
                  (case default_level dflt ''freq'' self of
                     Inl e \<Rightarrow> Inl e
                   | Inr v \<Rightarrow> Inr (self\<lparr>self_freq_level := Some (str_lower v)\<rparr>)))
             else
               (case default_level dflt ''freq_for_composite'' self of
                  Inl e \<Rightarrow> Inl e
                | Inr v \<Rightarrow> Inr (self\<lparr>self_freq_level := Some (str_lower v)\<rparr>))))"

text \<open>Lines 169 to 178: the sp level, and the check of the model chemistry.\<close>

definition init_sp_level :: "(string \<rightharpoonup> string) \<Rightarrow> arc_args \<Rightarrow> arc \<Rightarrow> arc result" where
  "init_sp_level dflt args self =
     (if sp_level args \<noteq> [] then
        check_model_chemistry (self\<lparr>self_sp_level := Some (str_lower (sp_level args))\<rparr>)
      else
        (case get_composite_method self of
           Inl e \<Rightarrow> Inl e
         | Inr cm \<Rightarrow>
             if cm = [] then
               (case default_level dflt ''sp'' self of
                  Inl e \<Rightarrow> Inl e
                | Inr v \<Rightarrow> check_model_chemistry (self\<lparr>self_sp_level := Some (str_lower v)\<rparr>))
             else Inr (self\<lparr>self_sp_level := Some []\<rparr>)))"

text \<open>Sequencing: the next step runs on the object that the previous one returned.\<close>

definition and_then :: "'a result \<Rightarrow> ('a \<Rightarrow> 'b result) \<Rightarrow> 'b result" where
  "and_then r f = (case r of Inl e \<Rightarrow> Inl e | Inr x \<Rightarrow> f x)"

text \<open>Lines 105 to 178: the levels of theory for opt, freq and sp.\<close>

definition init_levels :: "(string \<rightharpoonup> string) \<Rightarrow> arc_args \<Rightarrow> arc \<Rightarrow> arc result" where
  "init_levels dflt args self =
     (if level_of_theory args \<noteq> [] then init_level_of_theory args self
      else
        and_then (init_composite_method args self) (\<lambda>self.
        and_then (init_opt_level dflt args self) (\<lambda>self.
        and_then (init_freq_level dflt args self) (\<lambda>self.
        init_sp_level dflt args self))))"

text \<open>Lines 180 to 187: the scan level.\<close>

definition init_scan_level :: "(string \<rightharpoonup> string) \<Rightarrow> arc_args \<Rightarrow> arc \<Rightarrow> arc result" where
  "init_scan_level dflt args self =
     (if scan_level args \<noteq> [] then
        Inr (self\<lparr>self_scan_level := Some (str_lower (scan_level args))\<rparr>)
      else if self_scan_rotors self then
        (case default_level dflt ''scan'' self of
           Inl e \<Rightarrow> Inl e
         | Inr v \<Rightarrow> Inr (self\<lparr>self_scan_level := Some (str_lower v)\<rparr>))
      else
        Inr (self\<lparr>self_scan_level := Some []\<rparr>))"

text \<open>
  Lines 193 to 200: the loop over \<open>rmg_species_list\<close>. An entry that is not a \<open>Species\<close>
  and a \<open>Species\<close> without a label are refused; every other entry is appended to
  \<open>self.arc_species_list\<close> as an \<open>ARCSpecies\<close> that is not a transition state.
\<close>

fun init_rmg_species :: "pyobj list \<Rightarrow> arc \<Rightarrow> arc result" where
  "init_rmg_species [] self = Inr self"
| "init_rmg_species (rmg_spc # rest) self =
     (if \<not> is_Species rmg_spc then Inl (InputError (Not_RMG_Species rmg_spc), self)
      else if label rmg_spc = [] then Inl (InputError (Missing_label rmg_spc), self)
      else
        (case self_arc_species_list self of
           None \<Rightarrow> Inl (AttributeError ''arc_species_list'', self)
         | Some spcs \<Rightarrow>
             init_rmg_species rest
               (self\<lparr>self_arc_species_list := Some (spcs @ [ARCSpecies False (label rmg_spc)])\<rparr>)))"

text \<open>Lines 189 to 204: the species and reaction lists, and \<open>self.scheduler = None\<close>.\<close>

definition init_lists :: "arc_args \<Rightarrow> arc \<Rightarrow> arc result" where
  "init_lists args self =
     and_then
       (init_rmg_species (rmg_species_list args)
          (self\<lparr>self_arc_species_list := Some (arc_species_list args),
                 self_rmg_species_list := Some (rmg_species_list args)\<rparr>))
       (\<lambda>self. Inr (self\<lparr>self_rxn_list := Some (rxn_list args), self_scheduler := Some False\<rparr>))"

text \<open>Lines 89 to 187: the resolution of the levels of theory.\<close>

definition init_resolve :: "(string \<rightharpoonup> string) \<Rightarrow> arc_args \<Rightarrow> arc result" where
  "init_resolve dflt args =
     and_then (init_check_level_of_theory args (init_flags args)) (\<lambda>self.
     and_then (init_conformer_level dflt args self) (\<lambda>self.
     and_then (init_levels dflt args self) (\<lambda>self.
     init_scan_level dflt args self)))"

text \<open>The constructor \<open>ARC.__init__\<close>.\<close>

definition init :: "(string \<rightharpoonup> string) \<Rightarrow> arc_args \<Rightarrow> arc result" where
  "init dflt args = and_then (init_resolve dflt args) (init_lists args)"

subsection \<open>\<open>ARC.execute\<close> (lines 206 to 224)\<close>

text \<open>
  The call of line 220, \<open>Scheduler(project, species_list, composite_method,
  conformer_level, opt_level, freq_level, sp_level, scan_level, fine,
  generate_conformers, scan_rotors)\<close>. The class \<open>Scheduler\<close> of \<open>arc.scheduler\<close> submits
  the jobs to the servers.
\<close>

datatype scheduler_call =
  Scheduler string "pyobj list" string string string string string string bool bool bool

text \<open>Lines 208 to 212: every entry of the species list has to be an \<open>ARCSpecies\<close>.\<close>

fun execute_check_species :: "pyobj list \<Rightarrow> arc \<Rightarrow> arc result" where
  "execute_check_species [] self = Inr self"
| "execute_check_species (species # rest) self =
     (if \<not> is_ARCSpecies species then Inl (ValueError (Not_ARCSpecies species), self)
      else execute_check_species rest self)"

text \<open>
  Lines 214 to 218: every entry of \<open>rxn_list\<close> has to be a \<open>Reaction\<close>; the offending
  entry is logged before the \<open>ValueError\<close> is raised.
\<close>

fun execute_check_rxns :: "pyobj list \<Rightarrow> arc \<Rightarrow> arc result" where
  "execute_check_rxns [] self = Inr self"
| "execute_check_rxns (rxn # rest) self =
     (if \<not> is_Reaction rxn
      then Inl (ValueError Not_Reaction, self\<lparr>logged := logged self @ [Error_not_reaction rxn]\<rparr>)
      else execute_check_rxns rest self)"

text \<open>Reading an attribute that may be unassigned.\<close>

definition getattr :: "string \<Rightarrow> 'a option \<Rightarrow> arc \<Rightarrow> 'a result" where
  "getattr name v self =
     (case v of
        None \<Rightarrow> Inl (AttributeError name, self)
      | Some x \<Rightarrow> Inr x)"

text \<open>
  \<open>execute\<close>, up to the call of \<open>Scheduler\<close> at line 220: the two loops check the lists,
  then the arguments of the call are read in the order in which the source writes them.
  The model ends where the call is made and returns its arguments; the scheduler itself,
  the processor and the summary belong to modules that are not part of \<open>main.py\<close>.
\<close>

definition execute :: "arc \<Rightarrow> scheduler_call result" where
  "execute self =
     and_then (getattr ''arc_species_list'' (self_arc_species_list self) self) (\<lambda>spcs.
     and_then (execute_check_species spcs self) (\<lambda>self.
     and_then (getattr ''rxn_list'' (self_rxn_list self) self) (\<lambda>rxns.
     and_then (execute_check_rxns rxns self) (\<lambda>self.
     and_then (getattr ''arc_species_list'' (self_arc_species_list self) self) (\<lambda>species_list.
     and_then (getattr ''composite_method'' (self_composite_method self) self) (\<lambda>cm.
     and_then (getattr ''conformer_level'' (self_conformer_level self) self) (\<lambda>cl.
     and_then (getattr ''opt_level'' (self_opt_level self) self) (\<lambda>ol.
     and_then (getattr ''freq_level'' (self_freq_level self) self) (\<lambda>fl.
     and_then (getattr ''sp_level'' (self_sp_level self) self) (\<lambda>sl.
     and_then (getattr ''scan_level'' (self_scan_level self) self) (\<lambda>scl.
     Inr (Scheduler (self_project self) species_list cm cl ol fl sl scl (self_fine self)
            (self_generate_conformers self) (self_scan_rotors self)))))))))))))"

text \<open>Constructing the object and then running it: \<open>ARC(...).execute()\<close>.\<close>

definition construct_and_execute :: "(string \<rightharpoonup> string) \<Rightarrow> arc_args \<Rightarrow> scheduler_call result" where
  "construct_and_execute dflt args = and_then (init dflt args) execute"

text \<open>The exception that a step raised, if it raised one.\<close>

definition error_of :: "'a result \<Rightarrow> error option" where
  "error_of r = (case r of Inl (e, self) \<Rightarrow> Some e | Inr x \<Rightarrow> None)"

text \<open>An attribute that, if assigned, holds a lowercased string.\<close>

definition lowercased_if_assigned :: "string option \<Rightarrow> bool" where
  "lowercased_if_assigned v = (case v of None \<Rightarrow> True | Some s \<Rightarrow> is_lowercased s)"

text \<open>Every level of theory of the object that was assigned is lowercased (or empty).\<close>

definition levels_lowercased :: "arc \<Rightarrow> bool" where
  "levels_lowercased self \<longleftrightarrow>
     lowercased_if_assigned (self_conformer_level self) \<and>
     lowercased_if_assigned (self_composite_method self) \<and>
     lowercased_if_assigned (self_opt_level self) \<and>
     lowercased_if_assigned (self_freq_level self) \<and>
     lowercased_if_assigned (self_sp_level self) \<and>
     lowercased_if_assigned (self_scan_level self)"

text \<open>
  A table of defaults with the six keys that \<open>main.py\<close> reads from
  \<open>arc.settings.default_levels_of_theory\<close>, for evaluating the constructor on concrete
  arguments.
\<close>

definition default_levels_of_theory :: "string \<rightharpoonup> string" where
  "default_levels_of_theory =
     map_of [(''conformer'', ''b97-d3/6-311+g(d,p)''),
             (''opt'', ''wb97x-d3/6-311+g(d,p)''),
             (''freq'', ''wb97x-d3/6-311+g(d,p)''),
             (''sp'', ''ccsd(t)-f12/cc-pvtz-f12''),
             (''scan'', ''b3lyp/6-311+g(d,p)''),
             (''freq_for_composite'', ''b3lyp/cbsb7'')]"

text \<open>The default arguments of \<open>ARC.__init__\<close> (line 57 to 60), for a given project.\<close>

definition default_args :: "string \<Rightarrow> arc_args" where
  "default_args p =
     \<lparr>project = p, rmg_species_list = [], arc_species_list = [], rxn_list = [],
      level_of_theory = [], conformer_level = [], composite_method = [], opt_level = [],
      freq_level = [], sp_level = [], scan_level = [], fine = True,
      generate_conformers = True, scan_rotors = True, use_bac = True, model_chemistry = []\<rparr>"

text \<open>
  Arguments for evaluating the constructor: a level of theory that is in none of the
  tables of \<open>check_model_chemistry\<close>, given once through \<open>level_of_theory\<close> and once through
  the keywords \<open>opt_level\<close>, \<open>freq_level\<close> and \<open>sp_level\<close>; an opt level alone, with
  conformers and rotor scans switched off; and a composite method with an explicit model
  chemistry and \<open>use_bac\<close> switched off.
\<close>

definition args_level_of_theory :: arc_args where
  "args_level_of_theory = default_args ''p''\<lparr>level_of_theory := ''hf/sto-3g''\<rparr>"

definition args_keywords :: arc_args where
  "args_keywords =
     default_args ''p''\<lparr>opt_level := ''hf/sto-3g'', freq_level := ''hf/sto-3g'',
                        sp_level := ''hf/sto-3g''\<rparr>"

definition args_opt_only :: arc_args where
  "args_opt_only =
     default_args ''p''\<lparr>opt_level := ''B3LYP/6-31G*'', generate_conformers := False,
                        scan_rotors := False\<rparr>"

definition args_composite :: arc_args where
  "args_composite =
     default_args ''p''\<lparr>composite_method := ''G3'', use_bac := False,
                        model_chemistry := ''G3''\<rparr>"

text \<open>
  Lists with entries of the wrong type: an \<open>rmg_species_list\<close> whose second entry is an
  integer, after a species without a label and after a labelled species.
\<close>

definition args_unlabelled :: arc_args where
  "args_unlabelled = default_args ''p''\<lparr>rmg_species_list := [Species [], Other ''int'']\<rparr>"

definition args_wrong_types :: arc_args where
  "args_wrong_types =
     default_args ''p''\<lparr>rmg_species_list := [Species ''H2O'', Other ''int'']\<rparr>"

text \<open>
  An \<open>arc_species_list\<close> that holds an RMG \<open>Species\<close>, and a \<open>rxn_list\<close> that holds a string,
  each with the object that the constructor builds from it.
\<close>

definition args_wrong_species :: arc_args where
  "args_wrong_species =
     default_args ''p''\<lparr>arc_species_list := [ARCSpecies False ''H2O'', Species ''OH'']\<rparr>"

definition self_wrong_species :: arc where
  "self_wrong_species =
     \<lparr>self_project = ''p'', self_fine = True, self_generate_conformers = True,
      self_scan_rotors = True, self_use_bac = True,
      self_model_chemistry = ''ccsd(t)-f12/cc-pvtz-f12'',
      self_conformer_level = Some ''b97-d3/6-311+g(d,p)'',
      self_composite_method = Some [],
      self_opt_level = Some ''wb97x-d3/6-311+g(d,p)'',
      self_freq_level = Some ''wb97x-d3/6-311+g(d,p)'',
      self_sp_level = Some ''ccsd(t)-f12/cc-pvtz-f12'',
      self_scan_level = Some ''b3lyp/6-311+g(d,p)'',
      self_arc_species_list = Some [ARCSpecies False ''H2O'', Species ''OH''],
      self_rmg_species_list = Some [],
      self_rxn_list = Some [], self_scheduler = Some False, logged = []\<rparr>"

definition args_wrong_rxn :: arc_args where
  "args_wrong_rxn =
     default_args ''p''\<lparr>arc_species_list := [ARCSpecies False ''H2O''],
                        rxn_list := [Reaction ''H2O <=> H + OH'', Other ''str'']\<rparr>"

definition self_wrong_rxn :: arc where
  "self_wrong_rxn =
     \<lparr>self_project = ''p'', self_fine = True, self_generate_conformers = True,
      self_scan_rotors = True, self_use_bac = True,
      self_model_chemistry = ''ccsd(t)-f12/cc-pvtz-f12'',
      self_conformer_level = Some ''b97-d3/6-311+g(d,p)'',
      self_composite_method = Some [],
      self_opt_level = Some ''wb97x-d3/6-311+g(d,p)'',
      self_freq_level = Some ''wb97x-d3/6-311+g(d,p)'',
      self_sp_level = Some ''ccsd(t)-f12/cc-pvtz-f12'',
      self_scan_level = Some ''b3lyp/6-311+g(d,p)'',
      self_arc_species_list = Some [ARCSpecies False ''H2O''],
      self_rmg_species_list = Some [],
      self_rxn_list = Some [Reaction ''H2O <=> H + OH'', Other ''str''],
      self_scheduler = Some False, logged = []\<rparr>"

section \<open>Properties of the string operations\<close>

lemma find_first:
  "\<forall>p\<in>set pre. \<not> P p \<Longrightarrow> P l \<Longrightarrow> find P (pre @ l # post) = Some l"
  by (induction pre) auto

lemma digit_cases: "d < 10 \<Longrightarrow> d \<in> {0, 1, 2, 3, 4, 5, 6, 7, 8, 9::nat}"
  by auto

lemma digit_val_digit_char: "d < 10 \<Longrightarrow> digit_val (digit_char d) = d"
  using digit_cases [of d] by (auto simp: digit_val_def digit_char_def numeral_eq_Suc)

lemma digit_char_not_minus: "d < 10 \<Longrightarrow> digit_char d \<noteq> CHR ''-''"
  using digit_cases [of d] by (auto simp: digit_char_def numeral_eq_Suc)

lemma nat_of_str_snoc: "nat_of_str (xs @ [c]) = 10 * nat_of_str xs + digit_val c"
  by (simp add: nat_of_str_def)

lemma nat_of_str_of_nat: "nat_of_str (str_of_nat n) = n"
proof (induction n rule: str_of_nat.induct)
  case (1 n)
  show ?case
  proof (cases "n < 10")
    case True
    then show ?thesis
      by (simp add: str_of_nat.simps [of n] nat_of_str_def digit_val_digit_char)
  next
    case False
    then have "nat_of_str (str_of_nat (n div 10)) = n div 10"
      using 1 by simp
    with False show ?thesis
      by (simp add: str_of_nat.simps [of n] nat_of_str_snoc digit_val_digit_char)
  qed
qed

lemma str_of_nat_inj: "str_of_nat m = str_of_nat n \<Longrightarrow> m = n"
  by (metis nat_of_str_of_nat)

lemma str_of_nat_hd: "\<exists>c cs. str_of_nat n = c # cs \<and> c \<noteq> CHR ''-''"
proof (induction n rule: str_of_nat.induct)
  case (1 n)
  show ?case
  proof (cases "n < 10")
    case True
    then show ?thesis
      by (simp add: str_of_nat.simps [of n] digit_char_not_minus)
  next
    case False
    then obtain c cs where "str_of_nat (n div 10) = c # cs" "c \<noteq> CHR ''-''"
      using 1 by auto
    with False show ?thesis
      by (simp add: str_of_nat.simps [of n])
  qed
qed

lemma str_of_int_inj: "str_of_int m = str_of_int n \<Longrightarrow> m = n"
proof -
  assume eq: "str_of_int m = str_of_int n"
  obtain c cs where m: "str_of_nat (nat m) = c # cs" "c \<noteq> CHR ''-''"
    using str_of_nat_hd by blast
  obtain d ds where n: "str_of_nat (nat n) = d # ds" "d \<noteq> CHR ''-''"
    using str_of_nat_hd by blast
  show ?thesis
  proof (cases "m < 0")
    case True
    show ?thesis
    proof (cases "n < 0")
      case True
      with \<open>m < 0\<close> eq have "nat (- m) = nat (- n)"
        by (simp add: str_of_int_def str_of_nat_inj)
      with True \<open>m < 0\<close> show ?thesis by simp
    next
      case False
      with True eq n show ?thesis by (simp add: str_of_int_def)
    qed
  next
    case False
    show ?thesis
    proof (cases "n < 0")
      case True
      with False eq m show ?thesis by (simp add: str_of_int_def)
    next
      case False
      with \<open>\<not> m < 0\<close> eq have "nat m = nat n"
        by (simp add: str_of_int_def str_of_nat_inj)
      with False \<open>\<not> m < 0\<close> show ?thesis by simp
    qed
  qed
qed

lemma index_Cons: "index (x # xs) n = (if n = 0 then Some x else index xs (n - 1))"
  by (cases n) simp_all

lemma digit_char_values:
  "digit_char 0 = CHR ''0''" "digit_char 1 = CHR ''1''" "digit_char 2 = CHR ''2''"
  "digit_char 3 = CHR ''3''" "digit_char 4 = CHR ''4''" "digit_char 5 = CHR ''5''"
  "digit_char 6 = CHR ''6''" "digit_char 7 = CHR ''7''" "digit_char 8 = CHR ''8''"
  "digit_char 9 = CHR ''9''"
  by (simp_all add: digit_char_def index_Cons)

lemma str_of_int_582682: "str_of_int 582682 = ''582682''"
  by (simp add: str_of_int_def digit_char_values str_of_nat.simps [of 582682] str_of_nat.simps [of 58268]
      str_of_nat.simps [of 5826] str_of_nat.simps [of 582] str_of_nat.simps [of 58] str_of_nat.simps [of 5])

lemma str_of_int_82682: "str_of_int 82682 = ''82682''"
  by (simp add: str_of_int_def digit_char_values str_of_nat.simps [of 82682] str_of_nat.simps [of 8268]
      str_of_nat.simps [of 826] str_of_nat.simps [of 82] str_of_nat.simps [of 8])

lemma str_of_int_5826820: "str_of_int 5826820 = ''5826820''"
  by (simp add: str_of_int_def digit_char_values str_of_nat.simps [of 5826820] str_of_nat.simps [of 582682] str_of_nat.simps [of 58268]
      str_of_nat.simps [of 5826] str_of_nat.simps [of 582] str_of_nat.simps [of 58] str_of_nat.simps [of 5])

lemma str_of_int_582600: "str_of_int 582600 = ''582600''"
  by (simp add: str_of_int_def digit_char_values str_of_nat.simps [of 582600] str_of_nat.simps [of 58260]
      str_of_nat.simps [of 5826] str_of_nat.simps [of 582] str_of_nat.simps [of 58] str_of_nat.simps [of 5])

lemma str_of_int_588345: "str_of_int 588345 = ''588345''"
  by (simp add: str_of_int_def digit_char_values str_of_nat.simps [of 588345] str_of_nat.simps [of 58834]
      str_of_nat.simps [of 5883] str_of_nat.simps [of 588] str_of_nat.simps [of 58] str_of_nat.simps [of 5])

section \<open>Properties of the job-status parser\<close>

text \<open>
  The parser only looks at the job-ID field and the state code of each line.
\<close>

lemma check_by_table:
  "check_job_status_in_stdout other jid stdout =
     (case find (\<lambda>p. fst p = Some (str_of_job_id jid))
             (map (\<lambda>l. (line_job_id l, line_state_code l)) (splitlines stdout)) of
        None \<Rightarrow> Done
      | Some p \<Rightarrow> status_of_code other (snd p))"
proof -
  have "(case find (line_matches jid) ls of None \<Rightarrow> Done
           | Some l \<Rightarrow> status_of_code other (line_state_code l)) =
        (case find (\<lambda>p. fst p = Some (str_of_job_id jid))
                (map (\<lambda>l. (line_job_id l, line_state_code l)) ls) of
           None \<Rightarrow> Done
         | Some p \<Rightarrow> status_of_code other (snd p))" for ls
    by (induction ls) (simp_all add: line_matches_def)
  then show ?thesis
    by (simp add: check_job_status_in_stdout_def)
qed

lemmas row_defs = test_header_def test_rule_def test_row_582682_def test_row_588334_def
  test_row_588345_def dup_row_582682_def

lemma test_stdout_lines:
  "splitlines test_stdout =
     [test_header, test_rule, test_row_582682, test_row_588334, test_row_588345]"
  by (simp add: test_stdout_def splitlines_def row_defs)

lemma dup_stdout_lines: "splitlines dup_stdout = [test_row_582682, dup_row_582682]"
  by (simp add: dup_stdout_def splitlines_def row_defs)

lemma single_stdout_lines: "splitlines single_stdout = [test_row_582682]"
  by (simp add: single_stdout_def splitlines_def row_defs)

lemma test_rows:
  "line_job_id test_header = Some ''job-ID''"
  "line_state_code test_header = Some ''state''"
  "line_job_id test_rule = Some test_rule"
  "line_state_code test_rule = None"
  "line_job_id test_row_582682 = Some ''582682''"
  "line_state_code test_row_582682 = Some ''e''"
  "line_job_id test_row_588334 = Some ''588334''"
  "line_state_code test_row_588334 = Some ''r''"
  "line_job_id test_row_588345 = Some ''588345''"
  "line_state_code test_row_588345 = Some ''r''"
  "line_job_id dup_row_582682 = Some ''582682''"
  "line_state_code dup_row_582682 = Some ''r''"
  by (simp_all add: row_defs split_whitespace_def is_space_def line_job_id_def
      line_state_code_def index_Cons)

lemma test_rule_neq: "test_rule \<noteq> ''588345''" "test_rule \<noteq> ''582682''" "test_rule \<noteq> ''582600''"
  by (simp_all add: test_rule_def)

text \<open>
  Claim C1, as amended: for every job identifier and queue-snapshot text, if the first
  line whose job-ID field equals the string form of the identifier has state code \<open>r\<close>,
  then \<open>check_job_status_in_stdout\<close> returns running; if that line's state code is \<open>e\<close>,
  it returns errored.
\<close>

theorem first_matching_line_decides:
  assumes "splitlines stdout = pre @ l # post"
    and "\<forall>p\<in>set pre. \<not> line_matches jid p"
    and "line_matches jid l"
  shows "(line_state_code l = Some ''r'' \<longrightarrow>
            check_job_status_in_stdout other jid stdout = Running)
       \<and> (line_state_code l = Some ''e'' \<longrightarrow>
            check_job_status_in_stdout other jid stdout = Errored)"
proof -
  have "find (line_matches jid) (splitlines stdout) = Some l"
    using assms by (simp add: find_first)
  then show ?thesis
    by (simp add: check_job_status_in_stdout_def status_of_code_def)
qed

text \<open>
  In the snapshot of the test, the row of job 588345 is the first (and only) line that
  matches it, its state code is \<open>r\<close>, and the parser answers running.
\<close>

theorem first_matching_line_decides_witness:
  "splitlines test_stdout =
     [test_header, test_rule, test_row_582682, test_row_588334] @ test_row_588345 # []
   \<and> \<not> line_matches (IntId 588345) test_header
   \<and> \<not> line_matches (IntId 588345) test_rule
   \<and> \<not> line_matches (IntId 588345) test_row_582682
   \<and> \<not> line_matches (IntId 588345) test_row_588334
   \<and> line_matches (IntId 588345) test_row_588345
   \<and> line_state_code test_row_588345 = Some ''r''
   \<and> check_job_status_in_stdout (\<lambda>c. Queued) (IntId 588345) test_stdout = Running"
proof -
  have h1: "splitlines test_stdout =
     [test_header, test_rule, test_row_582682, test_row_588334] @ test_row_588345 # []"
    by (simp add: test_stdout_lines)
  have h2: "\<forall>p\<in>set [test_header, test_rule, test_row_582682, test_row_588334].
         \<not> line_matches (IntId 588345) p"
    by (simp add: line_matches_def test_rows test_rule_neq str_of_int_588345)
  have h3: "line_matches (IntId 588345) test_row_588345"
    by (simp add: line_matches_def test_rows str_of_int_588345)
  show ?thesis
    using first_matching_line_decides [OF h1 h2 h3, of "\<lambda>c. Queued"] h1 h2 h3
    by (simp add: test_rows)
qed

text \<open>
  Claim C1 as it is stated speaks of some matching line. In a snapshot with two rows for
  job 582682, the second row matches and has state code \<open>r\<close>, but the first matching
  row has state code \<open>e\<close> and decides: the parser answers errored, not running.
\<close>

theorem some_matching_line_counterexample:
  "index (splitlines dup_stdout) 1 = Some dup_row_582682
   \<and> line_matches (IntId 582682) dup_row_582682
   \<and> line_state_code dup_row_582682 = Some ''r''
   \<and> check_job_status_in_stdout (\<lambda>c. Queued) (IntId 582682) dup_stdout = Errored
   \<and> check_job_status_in_stdout (\<lambda>c. Queued) (IntId 582682) dup_stdout \<noteq> Running"
  by (simp add: dup_stdout_lines index_Cons line_matches_def test_rows str_of_int_582682
      check_job_status_in_stdout_def status_of_code_def)

text \<open>
  Claim C2: for every job identifier that matches no line of the queue-snapshot text,
  \<open>check_job_status_in_stdout\<close> returns done.
\<close>

theorem absent_job_is_done:
  assumes "\<forall>l\<in>set (splitlines stdout). \<not> line_matches jid l"
  shows "check_job_status_in_stdout other jid stdout = Done"
proof -
  have "find (line_matches jid) (splitlines stdout) = None"
    using assms by (simp add: find_None_iff)
  then show ?thesis
    by (simp add: check_job_status_in_stdout_def)
qed

text \<open>Job 582600 matches no line of the snapshot of the test, and is done.\<close>

theorem absent_job_is_done_witness:
  "splitlines test_stdout =
     [test_header, test_rule, test_row_582682, test_row_588334, test_row_588345]
   \<and> \<not> line_matches (IntId 582600) test_header
   \<and> \<not> line_matches (IntId 582600) test_rule
   \<and> \<not> line_matches (IntId 582600) test_row_582682
   \<and> \<not> line_matches (IntId 582600) test_row_588334
   \<and> \<not> line_matches (IntId 582600) test_row_588345
   \<and> check_job_status_in_stdout (\<lambda>c. Queued) (IntId 582600) test_stdout = Done"
proof -
  have h: "\<forall>l\<in>set (splitlines test_stdout). \<not> line_matches (IntId 582600) l"
    by (simp add: test_stdout_lines line_matches_def test_rows test_rule_neq str_of_int_582600)
  show ?thesis
    using absent_job_is_done [OF h, of "\<lambda>c. Queued"] h by (simp add: test_stdout_lines)
qed

text \<open>The three assertions of \<open>TestSSH.test_check_job_status_in_stdout\<close>.\<close>

lemma test_scenario:
  "check_job_status_in_stdout other (IntId 588345) test_stdout = Running"
  "check_job_status_in_stdout other (IntId 582682) test_stdout = Errored"
  "check_job_status_in_stdout other (IntId 582600) test_stdout = Done"
  by (simp_all add: check_job_status_in_stdout_def test_stdout_lines line_matches_def test_rows
      test_rule_neq status_of_code_def str_of_int_588345 str_of_int_582682 str_of_int_582600)

text \<open>
  Claim C3: job-identifier matching is exact on the line's leading whitespace-delimited
  field. A query identifier never matches a line whose job-ID field contains it only as
  a proper substring, nor a field of which it is a proper superstring; an identifier
  supplied as an integer is compared through its string form, so that a line whose
  job-ID field is the string form of the integer \<open>m\<close> matches the integer \<open>n\<close> exactly when
  \<open>m = n\<close>, and the integer and its string form give the same answer; in particular a
  snapshot that contains only job 582682 yields done for the queries 82682 and 5826820.
\<close>

theorem job_id_matching_exact:
  "(line_job_id l = Some f \<longrightarrow>
      proper_substring (str_of_job_id jid) f \<or> proper_substring f (str_of_job_id jid) \<longrightarrow>
      \<not> line_matches jid l)
   \<and> (line_job_id l = Some (str_of_int m) \<longrightarrow> line_matches (IntId n) l = (m = n))
   \<and> check_job_status_in_stdout other (IntId n) stdout =
       check_job_status_in_stdout other (StrId (str_of_int n)) stdout
   \<and> check_job_status_in_stdout other (IntId 82682) single_stdout = Done
   \<and> check_job_status_in_stdout other (IntId 5826820) single_stdout = Done
   \<and> check_job_status_in_stdout other (IntId 582682) single_stdout = Errored"
proof -
  have a: "line_job_id l = Some f \<longrightarrow>
      proper_substring (str_of_job_id jid) f \<or> proper_substring f (str_of_job_id jid) \<longrightarrow>
      \<not> line_matches jid l"
    by (auto simp: line_matches_def proper_substring_def)
  have b: "line_job_id l = Some (str_of_int m) \<longrightarrow> line_matches (IntId n) l = (m = n)"
    by (auto simp: line_matches_def dest: str_of_int_inj)
  have c: "check_job_status_in_stdout other (IntId n) stdout =
       check_job_status_in_stdout other (StrId (str_of_int n)) stdout"
    by (simp add: check_by_table)
  have d: "check_job_status_in_stdout other (IntId 82682) single_stdout = Done"
    by (simp add: check_job_status_in_stdout_def single_stdout_lines line_matches_def test_rows
        str_of_int_82682)
  have e: "check_job_status_in_stdout other (IntId 5826820) single_stdout = Done"
    by (simp add: check_job_status_in_stdout_def single_stdout_lines line_matches_def test_rows
        str_of_int_5826820)
  have f: "check_job_status_in_stdout other (IntId 582682) single_stdout = Errored"
    by (simp add: check_job_status_in_stdout_def single_stdout_lines line_matches_def test_rows
        str_of_int_582682 status_of_code_def)
  from a b c d e f show ?thesis by blast
qed

text \<open>
  The row of job 582682 does not match the query 82682, a proper substring of its job-ID
  field, and matches the query 582682.
\<close>

theorem job_id_matching_exact_witness:
  "line_job_id test_row_582682 = Some ''582682''
   \<and> proper_substring (str_of_job_id (IntId 82682)) ''582682''
   \<and> \<not> line_matches (IntId 82682) test_row_582682
   \<and> ''582682'' = str_of_int 582682
   \<and> line_matches (IntId 582682) test_row_582682"
  using job_id_matching_exact
    [of test_row_582682 "''582682''" "IntId 82682" 582682 582682 "\<lambda>c. Queued" "[]"]
  by (simp add: test_rows str_of_int_582682 str_of_int_82682 proper_substring_def)

section \<open>Properties of \<open>lower\<close>, \<open>count\<close>, \<open>split\<close> and \<open>replace\<close>\<close>

lemma index_in_set: "index xs i = Some x \<Longrightarrow> x \<in> set xs"
  by (induction xs i rule: index.induct) auto

lemma lower_char_idem: "lower_char (lower_char c) = lower_char c"
  by (auto simp: lower_char_def split: option.splits if_splits)

lemma lower_char_slash: "lower_char c = CHR ''/'' \<longleftrightarrow> c = CHR ''/''"
  by (auto simp: lower_char_def split: option.splits if_splits)

lemma is_lowercased_lower: "is_lowercased (str_lower s)"
  by (simp add: is_lowercased_def str_lower_def lower_char_idem)

lemma is_lowercased_iff: "is_lowercased s \<longleftrightarrow> (\<forall>c\<in>set s. lower_char c = c)"
  by (induction s) (auto simp: is_lowercased_def str_lower_def)

lemma is_lowercased_Nil: "is_lowercased []"
  by (simp add: is_lowercased_def str_lower_def)

lemma is_lowercased_subset: "is_lowercased s \<Longrightarrow> set w \<subseteq> set s \<Longrightarrow> is_lowercased w"
  by (auto simp: is_lowercased_iff)

lemma is_lowercased_append: "is_lowercased (a @ b) \<longleftrightarrow> is_lowercased a \<and> is_lowercased b"
  by (auto simp: is_lowercased_iff)

lemma set_str_split: "w \<in> set (str_split s sep) \<Longrightarrow> set w \<subseteq> set s"
proof (induction s sep arbitrary: w rule: str_split.induct)
  case (1 sep)
  then show ?case by simp
next
  case (2 c cs sep)
  show ?case
  proof (cases "sep \<noteq> [] \<and> startswith (c # cs) sep")
    case True
    with 2 have "w = [] \<or> w \<in> set (str_split (drop (length sep) (c # cs)) sep)"
      by auto
    then show ?thesis
    proof
      assume "w = []" then show ?thesis by simp
    next
      assume "w \<in> set (str_split (drop (length sep) (c # cs)) sep)"
      with 2 True have "set w \<subseteq> set (drop (length sep) (c # cs))"
        by blast
      then show ?thesis
        using set_drop_subset [of "length sep" "c # cs"] by blast
    qed
  next
    case False
    show ?thesis
    proof (cases "str_split cs sep")
      case Nil
      with 2 False show ?thesis by auto
    next
      case (Cons v vs)
      with 2(3) False have "w = c # v \<or> w \<in> set vs"
        by auto
      moreover have "set v \<subseteq> set cs" "\<And>u. u \<in> set vs \<Longrightarrow> set u \<subseteq> set cs"
        using 2(2) False Cons by auto
      ultimately show ?thesis by auto
    qed
  qed
qed

lemma set_str_replace: "set (str_replace s old new) \<subseteq> set s \<union> set new"
proof (induction s old new rule: str_replace.induct)
  case (1 old new)
  then show ?case by simp
next
  case (2 c cs old new)
  show ?case
  proof (cases "old \<noteq> [] \<and> startswith (c # cs) old")
    case True
    with 2 have "set (str_replace (drop (length old) (c # cs)) old new)
                   \<subseteq> set (drop (length old) (c # cs)) \<union> set new"
      by blast
    then have "set (str_replace (drop (length old) (c # cs)) old new) \<subseteq> set (c # cs) \<union> set new"
      using set_drop_subset [of "length old" "c # cs"] by blast
    with True show ?thesis by auto
  next
    case False
    with 2 show ?thesis by auto
  qed
qed

lemma is_lowercased_normalized: "is_lowercased (normalized_sp_level spl)"
proof -
  have f12: "\<forall>c\<in>set ''f12''. lower_char c = c"
    by (simp add: lower_char_def)
  have "set (normalized_sp_level spl) \<subseteq> set (str_lower spl) \<union> set ''f12''"
    unfolding normalized_sp_level_def
    using set_str_replace [of "str_replace (str_lower spl) ''f12a'' ''f12''" "''f12b''" "''f12''"]
      set_str_replace [of "str_lower spl" "''f12a''" "''f12''"]
    by blast
  moreover have "\<forall>c\<in>set (str_lower spl). lower_char c = c"
    using is_lowercased_lower [of spl] by (simp add: is_lowercased_iff)
  ultimately show ?thesis
    using f12 unfolding is_lowercased_iff by blast
qed

text \<open>
  Lowercasing maps no character to or from \<open>/\<close>, so it neither creates nor removes an
  occurrence of \<open>//\<close>.
\<close>

lemma startswith_slashes_map:
  "startswith (str_lower s) ''//'' = startswith s ''//''"
proof (cases s)
  case Nil
  then show ?thesis by (simp add: str_lower_def)
next
  case (Cons a t)
  then show ?thesis
    by (cases t) (auto simp: str_lower_def lower_char_slash)
qed

lemma str_lower_drop: "str_lower (drop n s) = drop n (str_lower s)"
  by (simp add: str_lower_def drop_map)

lemma str_contains_lower: "str_contains (str_lower s) ''//'' = str_contains s ''//''"
proof (induction s)
  case Nil
  then show ?case by (simp add: str_lower_def)
next
  case (Cons c cs)
  have "startswith (str_lower (c # cs)) ''//'' = startswith (c # cs) ''//''"
    by (rule startswith_slashes_map)
  with Cons show ?case
    by (simp add: str_lower_def)
qed

lemma str_count_yes:
  "sep \<noteq> [] \<Longrightarrow> startswith s sep \<Longrightarrow>
   str_count s sep = Suc (str_count (drop (length sep) s) sep)"
  by (cases s; cases sep) auto

lemma str_count_no:
  "\<not> startswith (c # cs) sep \<Longrightarrow> str_count (c # cs) sep = str_count cs sep"
  by (cases sep) auto

lemma str_split_yes:
  "sep \<noteq> [] \<Longrightarrow> startswith s sep \<Longrightarrow>
   str_split s sep = [] # str_split (drop (length sep) s) sep"
  by (cases s; cases sep) auto

lemma str_split_no:
  "\<not> startswith (c # cs) sep \<Longrightarrow>
   str_split (c # cs) sep = (case str_split cs sep of [] \<Rightarrow> [[c]] | w # ws \<Rightarrow> (c # w) # ws)"
  by (cases sep) auto

lemma str_split_nonempty: "str_split s sep \<noteq> []"
  by (cases s) (auto split: list.splits)

lemma str_count_lower: "str_count (str_lower s) ''//'' = str_count s ''//''"
proof (induction s rule: length_induct)
  case (1 s)
  show ?case
  proof (cases "startswith s ''//''")
    case True
    then have sw: "startswith (str_lower s) ''//''"
      by (simp only: startswith_slashes_map)
    have "length (drop (length ''//'') s) < length s"
      using True by (cases s) auto
    then have ih: "str_count (str_lower (drop (length ''//'') s)) ''//'' =
                   str_count (drop (length ''//'') s) ''//''"
      using 1 by blast
    have "str_count (str_lower s) ''//'' =
          Suc (str_count (drop (length ''//'') (str_lower s)) ''//'')"
      using sw by (intro str_count_yes) simp_all
    also have "\<dots> = Suc (str_count (drop (length ''//'') s) ''//'')"
      using ih by (simp only: str_lower_drop)
    also have "\<dots> = str_count s ''//''"
      using True by (intro str_count_yes [symmetric]) simp_all
    finally show ?thesis .
  next
    case False
    then have nsw: "\<not> startswith (str_lower s) ''//''"
      by (simp add: startswith_slashes_map)
    show ?thesis
    proof (cases s)
      case Nil
      then show ?thesis by (simp add: str_lower_def)
    next
      case (Cons c cs)
      then have ih: "str_count (str_lower cs) ''//'' = str_count cs ''//''"
        using 1 by simp
      have "str_count (lower_char c # str_lower cs) ''//'' = str_count (str_lower cs) ''//''"
        using nsw Cons by (intro str_count_no) (simp add: str_lower_def)
      moreover have "str_count (c # cs) ''//'' = str_count cs ''//''"
        using False Cons by (intro str_count_no) simp
      ultimately show ?thesis
        using ih Cons by (simp add: str_lower_def)
    qed
  qed
qed

text \<open>
  Splitting at \<open>//\<close> when the first occurrence is known: \<open>l @ ''//'' @ r\<close>, where \<open>//\<close>
  does not occur in \<open>l\<close> followed by a single \<open>/\<close>.
\<close>

lemma startswith_at_first:
  "\<not> str_contains ((c # l) @ ''/'') ''//'' \<Longrightarrow> \<not> startswith ((c # l) @ ''//'' @ r) ''//''"
  by (cases l) auto

lemma split_at_first:
  "\<not> str_contains (l @ ''/'') ''//'' \<Longrightarrow>
   str_split (l @ ''//'' @ r) ''//'' = l # str_split r ''//''"
proof (induction l)
  case Nil
  then show ?case by simp
next
  case (Cons c l)
  have ns: "\<not> startswith ((c # l) @ ''//'' @ r) ''//''"
    using Cons.prems by (rule startswith_at_first)
  have "str_split (l @ ''//'' @ r) ''//'' = l # str_split r ''//''"
    using Cons by simp
  with ns show ?case by simp
qed

lemma count_at_first:
  "\<not> str_contains (l @ ''/'') ''//'' \<Longrightarrow>
   str_count (l @ ''//'' @ r) ''//'' = Suc (str_count r ''//'')"
proof (induction l)
  case Nil
  then show ?case by simp
next
  case (Cons c l)
  have ns: "\<not> startswith (c # (l @ ''//'' @ r)) ''//''"
    using startswith_at_first [OF Cons.prems, of r] by simp
  have "str_count (c # (l @ ''//'' @ r)) ''//'' = str_count (l @ ''//'' @ r) ''//''"
    using ns by (rule str_count_no)
  moreover have "str_count (l @ ''//'' @ r) ''//'' = Suc (str_count r ''//'')"
    using Cons by simp
  ultimately show ?case by simp
qed

lemma split_no_sep: "str_count r ''//'' = 0 \<Longrightarrow> str_split r ''//'' = [r]"
proof (induction r)
  case Nil
  then show ?case by simp
next
  case (Cons c r)
  then have ns: "\<not> startswith (c # r) ''//''"
    by (auto split: if_splits)
  with Cons have "str_split r ''//'' = [r]"
    by (simp split: if_splits)
  with ns show ?case by simp
qed

lemma contains_at: "str_contains (l @ ''//'' @ r) ''//''"
  by (induction l) auto

lemma contains_split_length:
  "str_contains s ''//'' \<Longrightarrow> \<exists>a b rest. str_split s ''//'' = a # b # rest"
proof (induction s)
  case Nil
  then show ?case by simp
next
  case (Cons c s)
  show ?case
  proof (cases "startswith (c # s) ''//''")
    case True
    obtain x xs where "str_split (drop (length ''//'') (c # s)) ''//'' = x # xs"
      using str_split_nonempty [of "drop (length ''//'') (c # s)" "''//''"]
      by (cases "str_split (drop (length ''//'') (c # s)) ''//''") auto
    moreover have "str_split (c # s) ''//'' = [] # str_split (drop (length ''//'') (c # s)) ''//''"
      using True by (intro str_split_yes) simp_all
    ultimately show ?thesis by simp
  next
    case False
    with Cons obtain a b rest where "str_split s ''//'' = a # b # rest"
      by auto
    moreover have "str_split (c # s) ''//'' =
        (case str_split s ''//'' of [] \<Rightarrow> [[c]] | w # ws \<Rightarrow> (c # w) # ws)"
      using False by (rule str_split_no)
    ultimately show ?thesis by simp
  qed
qed

section \<open>Properties of the constructor and of \<open>execute\<close>\<close>

lemma and_then_Inr: "and_then r f = Inr y \<longleftrightarrow> (\<exists>x. r = Inr x \<and> f x = Inr y)"
  by (cases r) (simp_all add: and_then_def)

lemma and_then_step: "r = Inr x \<Longrightarrow> and_then r f = f x"
  by (simp add: and_then_def)

lemma lowercased_simps:
  "lowercased_if_assigned None"
  "lowercased_if_assigned (Some [])"
  "lowercased_if_assigned (Some s) = is_lowercased s"
  by (simp_all add: lowercased_if_assigned_def is_lowercased_Nil)

lemma init_conformer_level_Inr:
  assumes "init_conformer_level dflt args s = Inr s'"
  shows "\<exists>v. s' = s\<lparr>self_conformer_level := Some v\<rparr> \<and> is_lowercased v \<and>
           (conformer_level args = [] \<longrightarrow>
              Some v = (if self_generate_conformers s
                        then map_option str_lower (dflt ''conformer'') else Some []))"
  using assms
  by (auto simp: init_conformer_level_def default_level_def is_lowercased_lower is_lowercased_Nil
      split: if_splits option.splits)

lemma init_scan_level_Inr:
  assumes "init_scan_level dflt args s = Inr s'"
  shows "\<exists>v. s' = s\<lparr>self_scan_level := Some v\<rparr> \<and> is_lowercased v \<and>
           (scan_level args = [] \<longrightarrow>
              Some v = (if self_scan_rotors s
                        then map_option str_lower (dflt ''scan'') else Some []))"
  using assms
  by (auto simp: init_scan_level_def default_level_def is_lowercased_lower is_lowercased_Nil
      split: if_splits option.splits)

lemma init_rmg_species_Inr:
  "init_rmg_species xs s = Inr s' \<Longrightarrow> self_arc_species_list s = Some l \<Longrightarrow>
   s' = s\<lparr>self_arc_species_list := Some (l @ map (\<lambda>x. ARCSpecies False (label x)) xs)\<rparr>
   \<and> (\<forall>x\<in>set xs. is_Species x \<and> label x \<noteq> [])"
proof (induction xs arbitrary: s l)
  case Nil
  then show ?case by simp
next
  case (Cons x xs)
  from Cons.prems have x: "is_Species x" "label x \<noteq> []"
    by (auto split: if_splits)
  with Cons.prems have
    "init_rmg_species xs (s\<lparr>self_arc_species_list := Some (l @ [ARCSpecies False (label x)])\<rparr>) = Inr s'"
    by simp
  from Cons.IH [OF this, of "l @ [ARCSpecies False (label x)]"] x
  show ?case by simp
qed

lemma init_lists_Inr:
  assumes "init_lists args s = Inr s'"
  shows "s' = s\<lparr>self_arc_species_list :=
                   Some (arc_species_list args @
                         map (\<lambda>x. ARCSpecies False (label x)) (rmg_species_list args)),
                 self_rmg_species_list := Some (rmg_species_list args),
                 self_rxn_list := Some (rxn_list args),
                 self_scheduler := Some False\<rparr>
         \<and> (\<forall>x\<in>set (rmg_species_list args). is_Species x \<and> label x \<noteq> [])"
proof -
  from assms obtain s1 where
    s1: "init_rmg_species (rmg_species_list args)
           (s\<lparr>self_arc_species_list := Some (arc_species_list args),
               self_rmg_species_list := Some (rmg_species_list args)\<rparr>) = Inr s1"
    and s': "s' = s1\<lparr>self_rxn_list := Some (rxn_list args), self_scheduler := Some False\<rparr>"
    by (auto simp: init_lists_def and_then_Inr)
  from init_rmg_species_Inr [OF s1, of "arc_species_list args"] s'
  show ?thesis by simp
qed

text \<open>
  Claim C4: for every \<open>level_of_theory\<close> string in which the separator \<open>//\<close> occurs more
  than once (occurrences counted as \<open>count\<close> does, from the left and without overlap),
  the construction of the ARC object raises the InputError of line 90. At the raise no
  level of theory has been assigned and \<open>self.scheduler\<close> does not exist yet; constructing
  and executing stops with the same error, so no scheduler is ever called.
\<close>

theorem too_many_separators_rejected:
  assumes "1 < str_count (level_of_theory args) ''//''"
  shows "init dflt args =
           Inl (InputError (Level_of_theory_seems_wrong (level_of_theory args)), init_flags args)
       \<and> self_conformer_level (init_flags args) = None
       \<and> self_composite_method (init_flags args) = None
       \<and> self_opt_level (init_flags args) = None
       \<and> self_freq_level (init_flags args) = None
       \<and> self_sp_level (init_flags args) = None
       \<and> self_scan_level (init_flags args) = None
       \<and> self_scheduler (init_flags args) = None
       \<and> construct_and_execute dflt args =
           Inl (InputError (Level_of_theory_seems_wrong (level_of_theory args)), init_flags args)"
  using assms
  by (simp add: init_def init_resolve_def init_check_level_of_theory_def and_then_def
      construct_and_execute_def init_flags_def)

text \<open>The level of theory \<open>a//b//c\<close> has two separators and is refused.\<close>

theorem too_many_separators_rejected_witness:
  "1 < str_count (level_of_theory (default_args ''p''\<lparr>level_of_theory := ''a//b//c''\<rparr>)) ''//''
   \<and> error_of (init default_levels_of_theory (default_args ''p''\<lparr>level_of_theory := ''a//b//c''\<rparr>))
       = Some (InputError (Level_of_theory_seems_wrong ''a//b//c''))"
proof -
  have h: "1 < str_count (level_of_theory (default_args ''p''\<lparr>level_of_theory := ''a//b//c''\<rparr>)) ''//''"
    by (simp add: default_args_def)
  show ?thesis
    using too_many_separators_rejected [OF h, of default_levels_of_theory] h
    by (simp add: error_of_def)
qed

text \<open>
  Claim C10: if a model chemistry is at hand (non-empty), \<open>check_model_chemistry\<close> never
  raises, whatever \<open>use_bac\<close> and the sp level are: the value is kept, in lower case, it is
  not replaced by a model chemistry inferred from the sp level, and one that is not in the
  list of line 318 only adds a warning to the log.
\<close>

theorem explicit_model_chemistry_kept:
  assumes "self_model_chemistry self \<noteq> []"
  shows "check_model_chemistry self =
           Inr (self\<lparr>self_model_chemistry := str_lower (self_model_chemistry self),
                     logged := logged self @
                       (if str_lower (self_model_chemistry self) \<in> set bac_model_chemistries
                        then [] else [Warning_no_BAC (str_lower (self_model_chemistry self))])\<rparr>)"
  using assms by (simp add: check_model_chemistry_def Let_def)

text \<open>
  With \<open>use_bac\<close> on, the unknown model chemistry \<open>My-Method\<close> is kept as \<open>my-method\<close> and
  warned about.
\<close>

theorem explicit_model_chemistry_kept_witness:
  "self_model_chemistry
     (init_flags (default_args ''p''\<lparr>sp_level := ''HF/STO-3G'', model_chemistry := ''My-Method''\<rparr>)
        \<lparr>self_sp_level := Some ''hf/sto-3g''\<rparr>) \<noteq> []
   \<and> self_use_bac
     (init_flags (default_args ''p''\<lparr>sp_level := ''HF/STO-3G'', model_chemistry := ''My-Method''\<rparr>)
        \<lparr>self_sp_level := Some ''hf/sto-3g''\<rparr>)
   \<and> check_model_chemistry
     (init_flags (default_args ''p''\<lparr>sp_level := ''HF/STO-3G'', model_chemistry := ''My-Method''\<rparr>)
        \<lparr>self_sp_level := Some ''hf/sto-3g''\<rparr>) =
     Inr (init_flags (default_args ''p''\<lparr>sp_level := ''HF/STO-3G'', model_chemistry := ''My-Method''\<rparr>)
        \<lparr>self_sp_level := Some ''hf/sto-3g'', self_model_chemistry := ''my-method'',
          logged := [Warning_no_BAC ''my-method'']\<rparr>)"
proof -
  have h: "self_model_chemistry
     (init_flags (default_args ''p''\<lparr>sp_level := ''HF/STO-3G'', model_chemistry := ''My-Method''\<rparr>)
        \<lparr>self_sp_level := Some ''hf/sto-3g''\<rparr>) \<noteq> []"
    by (simp add: init_flags_def default_args_def)
  show ?thesis
    using explicit_model_chemistry_kept [OF h] h
    by (simp add: init_flags_def default_args_def str_lower_def lower_char_def
        bac_model_chemistries_def)
qed

lemma str_lower_append: "str_lower (a @ b) = str_lower a @ str_lower b"
  by (simp add: str_lower_def)

lemma str_lower_slashes: "str_lower ''//'' = ''//''" "str_lower ''/'' = ''/''"
  by (simp_all add: str_lower_def lower_char_def)

lemma str_lower_Nil_iff: "str_lower s = [] \<longleftrightarrow> s = []"
  by (simp add: str_lower_def)

lemma split_lower_at_first:
  assumes "\<not> str_contains (l @ ''/'') ''//''" and "str_count (l @ ''//'' @ r) ''//'' = 1"
  shows "str_split (str_lower (l @ ''//'' @ r)) ''//'' = [str_lower l, str_lower r]"
proof -
  have "str_count r ''//'' = 0"
    using assms count_at_first [of l r] by simp
  then have "str_count (str_lower r) ''//'' = 0"
    by (simp only: str_count_lower)
  then have r: "str_split (str_lower r) ''//'' = [str_lower r]"
    by (rule split_no_sep)
  have "\<not> str_contains (str_lower (l @ ''/'')) ''//''"
    using assms(1) by (simp add: str_contains_lower)
  then have "\<not> str_contains (str_lower l @ ''/'') ''//''"
    by (simp add: str_lower_append str_lower_slashes)
  then have "str_split (str_lower l @ ''//'' @ str_lower r) ''//'' =
             str_lower l # str_split (str_lower r) ''//''"
    by (rule split_at_first)
  with r show ?thesis
    by (simp only: str_lower_append str_lower_slashes)
qed

lemma init_level_of_theory_split:
  assumes "level_of_theory args = l @ ''//'' @ r"
    and "\<not> str_contains (l @ ''/'') ''//''"
    and "str_count (level_of_theory args) ''//'' = 1"
  shows "init_level_of_theory args s =
           Inr (s\<lparr>self_opt_level := Some (str_lower r), self_freq_level := Some (str_lower r),
                   self_sp_level := Some (str_lower l)\<rparr>)"
proof -
  have sp: "str_split (str_lower (level_of_theory args)) ''//'' = [str_lower l, str_lower r]"
    using assms split_lower_at_first [of l r] by simp
  have c: "str_contains (level_of_theory args) ''//''"
    unfolding assms(1) by (rule contains_at)
  have m: "CHR ''/'' \<in> set (level_of_theory args)"
    unfolding assms(1) by simp
  show ?thesis
    unfolding init_level_of_theory_def Let_def
    using c m by (simp add: sp index_Cons del: str_contains.simps)
qed

text \<open>
  The indexing of lines 110 to 112 never raises: where \<open>//\<close> occurs, the split has at
  least two pieces.
\<close>

lemma init_level_of_theory_no_error: "error_of (init_level_of_theory args s) = None"
proof (cases "str_contains (level_of_theory args) ''//''")
  case True
  then have "str_contains (str_lower (level_of_theory args)) ''//''"
    by (simp add: str_contains_lower)
  then obtain a b rest where "str_split (str_lower (level_of_theory args)) ''//'' = a # b # rest"
    using contains_split_length by blast
  then show ?thesis
    by (simp add: init_level_of_theory_def Let_def index_Cons error_of_def)
next
  case False
  then show ?thesis
    by (simp add: init_level_of_theory_def Let_def error_of_def)
qed

lemma init_Inr_stages:
  assumes "init dflt args = Inr self"
  shows "\<exists>s1 s2 s3. \<not> 1 < str_count (level_of_theory args) ''//''
           \<and> init_conformer_level dflt args (init_flags args) = Inr s1
           \<and> init_levels dflt args s1 = Inr s2
           \<and> init_scan_level dflt args s2 = Inr s3
           \<and> init_lists args s3 = Inr self"
  using assms
  by (auto simp: init_def init_resolve_def and_then_Inr init_check_level_of_theory_def
      split: if_splits)

text \<open>
  Claim C5: for every \<open>level_of_theory\<close> string containing exactly one \<open>//\<close> (counted as
  \<open>count\<close> does), with \<open>l\<close> the part left of it and \<open>r\<close> the part right of it (of its
  first occurrence, should a third \<open>/\<close> follow), the resolution of the levels sets
  \<open>sp_level\<close> to \<open>l\<close> in lower case and both \<open>opt_level\<close> and \<open>freq_level\<close> to \<open>r\<close> in lower
  case: the step itself never fails, and an object whose construction succeeds carries
  these three levels.
\<close>

theorem one_separator_splits:
  assumes "str_count (level_of_theory args) ''//'' = 1"
    and "level_of_theory args = l @ ''//'' @ r"
    and "\<not> str_contains (l @ ''/'') ''//''"
  shows "init_levels dflt args s =
           Inr (s\<lparr>self_opt_level := Some (str_lower r), self_freq_level := Some (str_lower r),
                   self_sp_level := Some (str_lower l)\<rparr>)
       \<and> (init dflt args = Inr self \<longrightarrow>
            self_sp_level self = Some (str_lower l) \<and>
            self_opt_level self = Some (str_lower r) \<and>
            self_freq_level self = Some (str_lower r))"
proof -
  have ne: "level_of_theory args \<noteq> []"
    using assms(2) by simp
  have lv: "init_levels dflt args t =
           Inr (t\<lparr>self_opt_level := Some (str_lower r), self_freq_level := Some (str_lower r),
                   self_sp_level := Some (str_lower l)\<rparr>)" for t
    using ne init_level_of_theory_split [OF assms(2) assms(3) assms(1)]
    by (simp add: init_levels_def)
  have "self_sp_level self = Some (str_lower l) \<and>
        self_opt_level self = Some (str_lower r) \<and>
        self_freq_level self = Some (str_lower r)" if "init dflt args = Inr self"
  proof -
    from init_Inr_stages [OF that] obtain s1 s2 s3 where
      s2: "init_levels dflt args s1 = Inr s2"
      and s3: "init_scan_level dflt args s2 = Inr s3"
      and s4: "init_lists args s3 = Inr self"
      by blast
    from s2 lv have "s2 = s1\<lparr>self_opt_level := Some (str_lower r),
        self_freq_level := Some (str_lower r), self_sp_level := Some (str_lower l)\<rparr>"
      by simp
    moreover from init_scan_level_Inr [OF s3] obtain v where "s3 = s2\<lparr>self_scan_level := Some v\<rparr>"
      by blast
    ultimately show ?thesis
      using init_lists_Inr [OF s4] by simp
  qed
  with lv show ?thesis by blast
qed

text \<open>The definitions that evaluate the constructor on concrete arguments.\<close>

lemmas init_defs = init_def init_resolve_def init_check_level_of_theory_def and_then_def
  init_conformer_level_def init_levels_def init_level_of_theory_def init_composite_method_def
  init_opt_level_def init_freq_level_def init_sp_level_def init_scan_level_def init_lists_def
  default_level_def get_composite_method_def init_flags_def check_model_chemistry_def
  normalized_sp_level_def f12_sp_levels_def bac_model_chemistries_def aec_model_chemistries_def
  default_levels_of_theory_def default_args_def str_lower_def lower_char_def index_Cons Let_def

lemma init_sp_geometry:
  "init default_levels_of_theory (default_args ''p''
      \<lparr>level_of_theory := ''CCSD(T)-F12a/aug-cc-pVTZ//B3LYP/6-311++G(3df,3pd)''\<rparr>) =
   Inr \<lparr>self_project = ''p'', self_fine = True, self_generate_conformers = True,
        self_scan_rotors = True, self_use_bac = True, self_model_chemistry = [],
        self_conformer_level = Some ''b97-d3/6-311+g(d,p)'',
        self_composite_method = None,
        self_opt_level = Some ''b3lyp/6-311++g(3df,3pd)'',
        self_freq_level = Some ''b3lyp/6-311++g(3df,3pd)'',
        self_sp_level = Some ''ccsd(t)-f12a/aug-cc-pvtz'',
        self_scan_level = Some ''b3lyp/6-311+g(d,p)'',
        self_arc_species_list = Some [], self_rmg_species_list = Some [],
        self_rxn_list = Some [], self_scheduler = Some False, logged = []\<rparr>"
  by (simp add: init_defs)

text \<open>The example of the docstring of the class, \<open>sp//geometry\<close>.\<close>

theorem one_separator_splits_witness:
  "str_count (level_of_theory (default_args ''p''
      \<lparr>level_of_theory := ''CCSD(T)-F12a/aug-cc-pVTZ//B3LYP/6-311++G(3df,3pd)''\<rparr>)) ''//'' = 1
   \<and> level_of_theory (default_args ''p''
      \<lparr>level_of_theory := ''CCSD(T)-F12a/aug-cc-pVTZ//B3LYP/6-311++G(3df,3pd)''\<rparr>) =
      ''CCSD(T)-F12a/aug-cc-pVTZ'' @ ''//'' @ ''B3LYP/6-311++G(3df,3pd)''
   \<and> \<not> str_contains (''CCSD(T)-F12a/aug-cc-pVTZ'' @ ''/'') ''//''
   \<and> error_of (init default_levels_of_theory (default_args ''p''
      \<lparr>level_of_theory := ''CCSD(T)-F12a/aug-cc-pVTZ//B3LYP/6-311++G(3df,3pd)''\<rparr>)) = None
   \<and> map_sum fst self_sp_level (init default_levels_of_theory (default_args ''p''
      \<lparr>level_of_theory := ''CCSD(T)-F12a/aug-cc-pVTZ//B3LYP/6-311++G(3df,3pd)''\<rparr>)) =
      Inr (Some (str_lower ''CCSD(T)-F12a/aug-cc-pVTZ''))
   \<and> map_sum fst self_opt_level (init default_levels_of_theory (default_args ''p''
      \<lparr>level_of_theory := ''CCSD(T)-F12a/aug-cc-pVTZ//B3LYP/6-311++G(3df,3pd)''\<rparr>)) =
      Inr (Some (str_lower ''B3LYP/6-311++G(3df,3pd)''))
   \<and> map_sum fst self_freq_level (init default_levels_of_theory (default_args ''p''
      \<lparr>level_of_theory := ''CCSD(T)-F12a/aug-cc-pVTZ//B3LYP/6-311++G(3df,3pd)''\<rparr>)) =
      Inr (Some (str_lower ''B3LYP/6-311++G(3df,3pd)''))"
proof -
  let ?args = "default_args ''p''
      \<lparr>level_of_theory := ''CCSD(T)-F12a/aug-cc-pVTZ//B3LYP/6-311++G(3df,3pd)''\<rparr>"
  have h1: "str_count (level_of_theory ?args) ''//'' = 1"
    by (simp add: default_args_def)
  have h2: "level_of_theory ?args = ''CCSD(T)-F12a/aug-cc-pVTZ'' @ ''//'' @ ''B3LYP/6-311++G(3df,3pd)''"
    by (simp add: default_args_def)
  have h3: "\<not> str_contains (''CCSD(T)-F12a/aug-cc-pVTZ'' @ ''/'') ''//''"
    by simp
  obtain self where ok: "init default_levels_of_theory ?args = Inr self"
    using init_sp_geometry by blast
  with one_separator_splits [OF h1 h2 h3, of default_levels_of_theory _ self]
  have "self_sp_level self = Some (str_lower ''CCSD(T)-F12a/aug-cc-pVTZ'') \<and>
        self_opt_level self = Some (str_lower ''B3LYP/6-311++G(3df,3pd)'') \<and>
        self_freq_level self = Some (str_lower ''B3LYP/6-311++G(3df,3pd)'')"
    by blast
  with ok h1 h2 h3 show ?thesis
    by (simp add: error_of_def)
qed

text \<open>What each step of the constructor returns when it does not raise.\<close>

lemma is_lowercased_f12: "is_lowercased ''-f12''"
  by (simp add: is_lowercased_def str_lower_def lower_char_def)

lemma check_model_chemistry_Inr:
  assumes "check_model_chemistry s = Inr s'"
  shows "s' = s\<lparr>self_model_chemistry := self_model_chemistry s', logged := logged s'\<rparr>
         \<and> is_lowercased (self_model_chemistry s')"
  using assms
  by (auto simp: check_model_chemistry_def Let_def is_lowercased_lower is_lowercased_normalized
      is_lowercased_Nil is_lowercased_append is_lowercased_f12
      split: if_splits option.splits)

lemma init_composite_method_Inr:
  assumes "init_composite_method args s = Inr s'"
  shows "s' = s\<lparr>self_composite_method := Some (str_lower (composite_method args)),
                 self_model_chemistry := self_model_chemistry s'\<rparr>
         \<and> (self_model_chemistry s' = self_model_chemistry s \<or>
            self_model_chemistry s' = ''cbs-qb3'' \<and> str_lower (composite_method args) = ''cbs-qb3'')"
  using assms
  by (auto simp: init_composite_method_def Let_def split: if_splits)

lemma init_opt_level_Inr:
  assumes "init_opt_level dflt args s = Inr s'"
  shows "\<exists>v. s' = s\<lparr>self_opt_level := Some v\<rparr> \<and> is_lowercased v \<and>
           (opt_level args = [] \<longrightarrow>
              (\<exists>cm. self_composite_method s = Some cm \<and>
                 Some v = (if cm = [] then map_option str_lower (dflt ''opt'') else Some [])))"
  using assms
  by (auto simp: init_opt_level_def get_composite_method_def default_level_def
      is_lowercased_lower is_lowercased_Nil split: if_splits option.splits)

lemma init_freq_level_Inr:
  assumes "init_freq_level dflt args s = Inr s'"
  shows "\<exists>v. s' = s\<lparr>self_freq_level := Some v\<rparr> \<and> is_lowercased v \<and>
           (freq_level args = [] \<longrightarrow>
              (\<exists>cm. self_composite_method s = Some cm \<and>
                 Some v = (if cm \<noteq> [] then map_option str_lower (dflt ''freq_for_composite'')
                           else if opt_level args \<noteq> [] then Some (str_lower (opt_level args))
                           else map_option str_lower (dflt ''freq''))))"
  using assms
  by (auto simp: init_freq_level_def get_composite_method_def default_level_def
      is_lowercased_lower is_lowercased_Nil split: if_splits option.splits)

lemma init_sp_level_Inr:
  assumes "init_sp_level dflt args s = Inr s'"
  shows "\<exists>v. s' = s\<lparr>self_sp_level := Some v, self_model_chemistry := self_model_chemistry s',
                     logged := logged s'\<rparr> \<and> is_lowercased v \<and>
           (sp_level args = [] \<longrightarrow>
              (\<exists>cm. self_composite_method s = Some cm \<and>
                 Some v = (if cm = [] then map_option str_lower (dflt ''sp'') else Some []))) \<and>
           (sp_level args \<noteq> [] \<or> self_composite_method s = Some [] \<longrightarrow>
              is_lowercased (self_model_chemistry s')) \<and>
           (is_lowercased (self_model_chemistry s) \<longrightarrow> is_lowercased (self_model_chemistry s'))"
proof (cases "sp_level args \<noteq> []")
  case True
  with assms have c: "check_model_chemistry (s\<lparr>self_sp_level := Some (str_lower (sp_level args))\<rparr>) = Inr s'"
    by (simp add: init_sp_level_def)
  from check_model_chemistry_Inr [OF c] True show ?thesis
    by (auto simp: is_lowercased_lower)
next
  case False
  with assms obtain cm where cm: "self_composite_method s = Some cm"
    by (auto simp: init_sp_level_def get_composite_method_def split: option.splits)
  show ?thesis
  proof (cases "cm = []")
    case True
    with assms False cm obtain d where d: "dflt ''sp'' = Some d"
      and c: "check_model_chemistry (s\<lparr>self_sp_level := Some (str_lower d)\<rparr>) = Inr s'"
      by (auto simp: init_sp_level_def get_composite_method_def default_level_def
          split: option.splits)
    from check_model_chemistry_Inr [OF c] True False cm d show ?thesis
      by (auto simp: is_lowercased_lower)
  next
    case nonempty: False
    with assms False cm have "s' = s\<lparr>self_sp_level := Some []\<rparr>"
      by (auto simp: init_sp_level_def get_composite_method_def)
    with nonempty False cm show ?thesis
      by (auto simp: is_lowercased_Nil)
  qed
qed

lemma init_levels_keywords_Inr:
  assumes "level_of_theory args = []" and "init_levels dflt args s = Inr s'"
  shows "\<exists>t1 t2 t3. init_composite_method args s = Inr t1
           \<and> init_opt_level dflt args t1 = Inr t2
           \<and> init_freq_level dflt args t2 = Inr t3
           \<and> init_sp_level dflt args t3 = Inr s'"
  using assms by (auto simp: init_levels_def and_then_Inr)

lemma init_flags_simps:
  "self_generate_conformers (init_flags args) = generate_conformers args"
  "self_scan_rotors (init_flags args) = scan_rotors args"
  "self_use_bac (init_flags args) = use_bac args"
  "self_model_chemistry (init_flags args) = model_chemistry args"
  "levels_lowercased (init_flags args)"
  by (simp_all add: init_flags_def levels_lowercased_def lowercased_simps)

text \<open>
  Claim C7, as amended: if no combined \<open>level_of_theory\<close> is given and the construction
  succeeds, a level that the caller did not set is resolved as follows, every default
  being the entry of \<open>default_levels_of_theory\<close> in lower case. The opt level and the sp
  level are their defaults when no composite method is given, and empty otherwise. The
  freq level is the default \<open>freq_for_composite\<close> when a composite method is given;
  otherwise it is the caller's opt level, in lower case, when that is given, and the
  default \<open>freq\<close> when it is not. The conformer level is its default when
  \<open>generate_conformers\<close> is on, and empty otherwise. The scan level is its default when
  \<open>scan_rotors\<close> is on, and empty otherwise.
\<close>

theorem unset_levels_fall_back:
  assumes "level_of_theory args = []" and "init dflt args = Inr self"
  shows "(conformer_level args = [] \<longrightarrow>
            self_conformer_level self =
              (if generate_conformers args then map_option str_lower (dflt ''conformer'')
               else Some []))
       \<and> (opt_level args = [] \<longrightarrow>
            self_opt_level self =
              (if composite_method args = [] then map_option str_lower (dflt ''opt'')
               else Some []))
       \<and> (freq_level args = [] \<longrightarrow>
            self_freq_level self =
              (if composite_method args \<noteq> [] then map_option str_lower (dflt ''freq_for_composite'')
               else if opt_level args \<noteq> [] then Some (str_lower (opt_level args))
               else map_option str_lower (dflt ''freq'')))
       \<and> (sp_level args = [] \<longrightarrow>
            self_sp_level self =
              (if composite_method args = [] then map_option str_lower (dflt ''sp'')
               else Some []))
       \<and> (scan_level args = [] \<longrightarrow>
            self_scan_level self =
              (if scan_rotors args then map_option str_lower (dflt ''scan'')
               else Some []))"
proof -
  from init_Inr_stages [OF assms(2)] obtain s1 s2 s3 where
    s1: "init_conformer_level dflt args (init_flags args) = Inr s1"
    and s2: "init_levels dflt args s1 = Inr s2"
    and s3: "init_scan_level dflt args s2 = Inr s3"
    and s4: "init_lists args s3 = Inr self"
    by blast
  from init_levels_keywords_Inr [OF assms(1) s2] obtain t1 t2 t3 where
    t1: "init_composite_method args s1 = Inr t1"
    and t2: "init_opt_level dflt args t1 = Inr t2"
    and t3: "init_freq_level dflt args t2 = Inr t3"
    and t4: "init_sp_level dflt args t3 = Inr s2"
    by blast
  from init_conformer_level_Inr [OF s1] obtain vc where
    vc: "s1 = (init_flags args)\<lparr>self_conformer_level := Some vc\<rparr>"
      "conformer_level args = [] \<longrightarrow>
         Some vc = (if generate_conformers args then map_option str_lower (dflt ''conformer'')
                    else Some [])"
    by (auto simp: init_flags_simps)
  from init_composite_method_Inr [OF t1] obtain mc1 where
    cm: "t1 = s1\<lparr>self_composite_method := Some (str_lower (composite_method args)),
                 self_model_chemistry := mc1\<rparr>"
    by blast
  from init_opt_level_Inr [OF t2] obtain vo where
    vo: "t2 = t1\<lparr>self_opt_level := Some vo\<rparr>"
      "opt_level args = [] \<longrightarrow>
         (\<exists>cm. self_composite_method t1 = Some cm \<and>
            Some vo = (if cm = [] then map_option str_lower (dflt ''opt'') else Some []))"
    by blast
  from init_freq_level_Inr [OF t3] obtain vf where
    vf: "t3 = t2\<lparr>self_freq_level := Some vf\<rparr>"
      "freq_level args = [] \<longrightarrow>
         (\<exists>cm. self_composite_method t2 = Some cm \<and>
            Some vf = (if cm \<noteq> [] then map_option str_lower (dflt ''freq_for_composite'')
                       else if opt_level args \<noteq> [] then Some (str_lower (opt_level args))
                       else map_option str_lower (dflt ''freq'')))"
    by blast
  from init_sp_level_Inr [OF t4] obtain vs mc2 lg2 where
    vs: "s2 = t3\<lparr>self_sp_level := Some vs, self_model_chemistry := mc2, logged := lg2\<rparr>"
      "sp_level args = [] \<longrightarrow>
         (\<exists>cm. self_composite_method t3 = Some cm \<and>
            Some vs = (if cm = [] then map_option str_lower (dflt ''sp'') else Some []))"
    by blast
  from init_scan_level_Inr [OF s3] obtain vn where
    vn: "s3 = s2\<lparr>self_scan_level := Some vn\<rparr>"
      "scan_level args = [] \<longrightarrow>
         Some vn = (if self_scan_rotors s2 then map_option str_lower (dflt ''scan'')
                    else Some [])"
    by blast
  from init_lists_Inr [OF s4] have
    fin: "self_conformer_level self = self_conformer_level s3"
      "self_opt_level self = self_opt_level s3"
      "self_freq_level self = self_freq_level s3"
      "self_sp_level self = self_sp_level s3"
      "self_scan_level self = self_scan_level s3"
    by simp_all
  have c: "conformer_level args = [] \<longrightarrow>
            self_conformer_level self =
              (if generate_conformers args then map_option str_lower (dflt ''conformer'')
               else Some [])"
    using vc(2) by (simp add: fin vn(1) vs(1) vf(1) vo(1) cm vc(1))
  have o: "opt_level args = [] \<longrightarrow>
            self_opt_level self =
              (if composite_method args = [] then map_option str_lower (dflt ''opt'')
               else Some [])"
    using vo(2) by (simp add: fin vn(1) vs(1) vf(1) vo(1) cm str_lower_Nil_iff)
  have f: "freq_level args = [] \<longrightarrow>
            self_freq_level self =
              (if composite_method args \<noteq> [] then map_option str_lower (dflt ''freq_for_composite'')
               else if opt_level args \<noteq> [] then Some (str_lower (opt_level args))
               else map_option str_lower (dflt ''freq''))"
    using vf(2) by (simp add: fin vn(1) vs(1) vf(1) vo(1) cm str_lower_Nil_iff)
  have p: "sp_level args = [] \<longrightarrow>
            self_sp_level self =
              (if composite_method args = [] then map_option str_lower (dflt ''sp'')
               else Some [])"
    using vs(2) by (simp add: fin vn(1) vs(1) vf(1) vo(1) cm str_lower_Nil_iff)
  have n: "scan_level args = [] \<longrightarrow>
            self_scan_level self =
              (if scan_rotors args then map_option str_lower (dflt ''scan'')
               else Some [])"
    using vn(2) by (simp add: fin vn(1) vs(1) vf(1) vo(1) cm vc(1) init_flags_simps)
  from c o f p n show ?thesis by blast
qed

text \<open>The constructor evaluated on concrete arguments.\<close>

lemma init_default_args:
  "init default_levels_of_theory (default_args ''p'') =
   Inr \<lparr>self_project = ''p'', self_fine = True, self_generate_conformers = True,
        self_scan_rotors = True, self_use_bac = True,
        self_model_chemistry = ''ccsd(t)-f12/cc-pvtz-f12'',
        self_conformer_level = Some ''b97-d3/6-311+g(d,p)'',
        self_composite_method = Some [],
        self_opt_level = Some ''wb97x-d3/6-311+g(d,p)'',
        self_freq_level = Some ''wb97x-d3/6-311+g(d,p)'',
        self_sp_level = Some ''ccsd(t)-f12/cc-pvtz-f12'',
        self_scan_level = Some ''b3lyp/6-311+g(d,p)'',
        self_arc_species_list = Some [], self_rmg_species_list = Some [],
        self_rxn_list = Some [], self_scheduler = Some False, logged = []\<rparr>"
  by (simp add: init_defs)

lemma init_args_level_of_theory:
  "init default_levels_of_theory args_level_of_theory =
   Inr \<lparr>self_project = ''p'', self_fine = True, self_generate_conformers = True,
        self_scan_rotors = True, self_use_bac = True, self_model_chemistry = [],
        self_conformer_level = Some ''b97-d3/6-311+g(d,p)'',
        self_composite_method = None,
        self_opt_level = Some ''hf/sto-3g'',
        self_freq_level = Some ''hf/sto-3g'',
        self_sp_level = Some ''hf/sto-3g'',
        self_scan_level = Some ''b3lyp/6-311+g(d,p)'',
        self_arc_species_list = Some [], self_rmg_species_list = Some [],
        self_rxn_list = Some [], self_scheduler = Some False, logged = []\<rparr>"
  by (simp add: args_level_of_theory_def init_defs)

lemma init_args_keywords:
  "error_of (init default_levels_of_theory args_keywords) = Some (InputError No_model_chemistry)"
  by (simp add: args_keywords_def error_of_def init_defs)

lemma init_args_opt_only:
  "init default_levels_of_theory args_opt_only =
   Inr \<lparr>self_project = ''p'', self_fine = True, self_generate_conformers = False,
        self_scan_rotors = False, self_use_bac = True,
        self_model_chemistry = ''ccsd(t)-f12/cc-pvtz-f12'',
        self_conformer_level = Some [],
        self_composite_method = Some [],
        self_opt_level = Some ''b3lyp/6-31g*'',
        self_freq_level = Some ''b3lyp/6-31g*'',
        self_sp_level = Some ''ccsd(t)-f12/cc-pvtz-f12'',
        self_scan_level = Some [],
        self_arc_species_list = Some [], self_rmg_species_list = Some [],
        self_rxn_list = Some [], self_scheduler = Some False,
        logged = [Warning_no_rotor_scans]\<rparr>"
  by (simp add: args_opt_only_def init_defs)

lemma init_args_composite:
  "init default_levels_of_theory args_composite =
   Inr \<lparr>self_project = ''p'', self_fine = True, self_generate_conformers = True,
        self_scan_rotors = True, self_use_bac = False,
        self_model_chemistry = ''G3'',
        self_conformer_level = Some ''b97-d3/6-311+g(d,p)'',
        self_composite_method = Some ''g3'',
        self_opt_level = Some [],
        self_freq_level = Some ''b3lyp/cbsb7'',
        self_sp_level = Some [],
        self_scan_level = Some ''b3lyp/6-311+g(d,p)'',
        self_arc_species_list = Some [], self_rmg_species_list = Some [],
        self_rxn_list = Some [], self_scheduler = Some False, logged = []\<rparr>"
  by (simp add: args_composite_def init_defs)

text \<open>
  Claim C6: when no model chemistry is given, it is inferred from the resolved sp level
  through the tables of \<open>check_model_chemistry\<close>, and the resolution raises an InputError
  when nothing is found while \<open>use_bac\<close> is on. The constructor does so when the sp level
  comes from the keyword \<open>sp_level\<close> or from the default, but not when it comes from
  \<open>level_of_theory\<close>: with \<open>level_of_theory = 'hf/sto-3g'\<close>, \<open>use_bac\<close> on and no model
  chemistry, the sp level \<open>hf/sto-3g\<close> is in none of the tables, yet the construction
  succeeds and the model chemistry stays empty; the same levels given through the
  keywords raise the InputError of line 341.
\<close>

theorem level_of_theory_skips_model_chemistry:
  "use_bac args_level_of_theory
   \<and> model_chemistry args_level_of_theory = []
   \<and> init default_levels_of_theory args_level_of_theory =
     Inr \<lparr>self_project = ''p'', self_fine = True, self_generate_conformers = True,
        self_scan_rotors = True, self_use_bac = True, self_model_chemistry = [],
        self_conformer_level = Some ''b97-d3/6-311+g(d,p)'',
        self_composite_method = None,
        self_opt_level = Some ''hf/sto-3g'',
        self_freq_level = Some ''hf/sto-3g'',
        self_sp_level = Some ''hf/sto-3g'',
        self_scan_level = Some ''b3lyp/6-311+g(d,p)'',
        self_arc_species_list = Some [], self_rmg_species_list = Some [],
        self_rxn_list = Some [], self_scheduler = Some False, logged = []\<rparr>
   \<and> normalized_sp_level ''hf/sto-3g'' \<notin> set (f12_sp_levels @ bac_model_chemistries)
   \<and> error_of (init default_levels_of_theory args_keywords) = Some (InputError No_model_chemistry)"
  by (simp add: init_args_level_of_theory init_args_keywords)
     (simp add: args_level_of_theory_def default_args_def normalized_sp_level_def
        f12_sp_levels_def bac_model_chemistries_def str_lower_def lower_char_def)

text \<open>With the default arguments every level is the lowercased entry of the table.\<close>

theorem unset_levels_fall_back_witness:
  "level_of_theory (default_args ''p'') = []
   \<and> error_of (init default_levels_of_theory (default_args ''p'')) = None
   \<and> map_sum fst self_conformer_level (init default_levels_of_theory (default_args ''p'')) =
       Inr (map_option str_lower (default_levels_of_theory ''conformer''))
   \<and> map_sum fst self_opt_level (init default_levels_of_theory (default_args ''p'')) =
       Inr (map_option str_lower (default_levels_of_theory ''opt''))
   \<and> map_sum fst self_freq_level (init default_levels_of_theory (default_args ''p'')) =
       Inr (map_option str_lower (default_levels_of_theory ''freq''))
   \<and> map_sum fst self_sp_level (init default_levels_of_theory (default_args ''p'')) =
       Inr (map_option str_lower (default_levels_of_theory ''sp''))
   \<and> map_sum fst self_scan_level (init default_levels_of_theory (default_args ''p'')) =
       Inr (map_option str_lower (default_levels_of_theory ''scan''))"
proof -
  have h: "level_of_theory (default_args ''p'') = []"
    by (simp add: default_args_def)
  obtain self where ok: "init default_levels_of_theory (default_args ''p'') = Inr self"
    using init_default_args by blast
  have a: "conformer_level (default_args ''p'') = []" "opt_level (default_args ''p'') = []"
    "freq_level (default_args ''p'') = []" "sp_level (default_args ''p'') = []"
    "scan_level (default_args ''p'') = []" "composite_method (default_args ''p'') = []"
    "generate_conformers (default_args ''p'')" "scan_rotors (default_args ''p'')"
    by (simp_all add: default_args_def)
  show ?thesis
    using unset_levels_fall_back [OF h ok] h ok a
    by (simp add: error_of_def)
qed

text \<open>
  Claim C7 as it is stated: with no level of theory, an opt level given, and conformers
  and rotor scans switched off, the freq level that was not set is the opt level, not the
  default \<open>freq\<close>, and the conformer and scan levels that were not set are empty, not
  their defaults.
\<close>

theorem unset_levels_counterexample:
  "level_of_theory args_opt_only = []
   \<and> conformer_level args_opt_only = []
   \<and> freq_level args_opt_only = []
   \<and> scan_level args_opt_only = []
   \<and> default_levels_of_theory ''conformer'' = Some ''b97-d3/6-311+g(d,p)''
   \<and> default_levels_of_theory ''freq'' = Some ''wb97x-d3/6-311+g(d,p)''
   \<and> default_levels_of_theory ''scan'' = Some ''b3lyp/6-311+g(d,p)''
   \<and> map_sum fst self_conformer_level (init default_levels_of_theory args_opt_only) = Inr (Some [])
   \<and> map_sum fst self_freq_level (init default_levels_of_theory args_opt_only) =
       Inr (Some ''b3lyp/6-31g*'')
   \<and> map_sum fst self_scan_level (init default_levels_of_theory args_opt_only) = Inr (Some [])"
  by (simp add: init_args_opt_only)
     (simp add: args_opt_only_def default_args_def default_levels_of_theory_def)

text \<open>The resolution of the levels keeps every assigned level lowercased.\<close>

lemma init_composite_method_cbs:
  assumes "init_composite_method args s = Inr s'"
    and "str_lower (composite_method args) = ''cbs-qb3''"
  shows "self_model_chemistry s' = ''cbs-qb3''"
  using assms by (auto simp: init_composite_method_def Let_def split: if_splits)

lemma init_level_of_theory_Inr:
  assumes "init_level_of_theory args s = Inr s'" and "levels_lowercased s"
  shows "levels_lowercased s' \<and> self_model_chemistry s' = self_model_chemistry s"
proof -
  have low: "is_lowercased w"
    if "index (str_split (str_lower (level_of_theory args)) ''//'') i = Some w" for i w
  proof -
    from that have "w \<in> set (str_split (str_lower (level_of_theory args)) ''//'')"
      by (rule index_in_set)
    then have "set w \<subseteq> set (str_lower (level_of_theory args))"
      by (rule set_str_split)
    with is_lowercased_lower show ?thesis
      by (rule is_lowercased_subset)
  qed
  show ?thesis
    using assms low
    by (auto simp: init_level_of_theory_def Let_def levels_lowercased_def lowercased_simps
        is_lowercased_lower split: if_splits option.splits)
qed

lemma init_levels_Inr:
  assumes "init_levels dflt args s = Inr s'" and "levels_lowercased s"
  shows "levels_lowercased s'
       \<and> (is_lowercased (self_model_chemistry s) \<longrightarrow> is_lowercased (self_model_chemistry s'))
       \<and> (level_of_theory args = [] \<and>
            (sp_level args \<noteq> [] \<or> composite_method args = [] \<or>
             str_lower (composite_method args) = ''cbs-qb3'') \<longrightarrow>
          is_lowercased (self_model_chemistry s'))"
proof (cases "level_of_theory args = []")
  case False
  with assms(1) have "init_level_of_theory args s = Inr s'"
    by (simp add: init_levels_def)
  from init_level_of_theory_Inr [OF this assms(2)] False show ?thesis
    by simp
next
  case True
  from init_levels_keywords_Inr [OF True assms(1)] obtain t1 t2 t3 where
    t1: "init_composite_method args s = Inr t1"
    and t2: "init_opt_level dflt args t1 = Inr t2"
    and t3: "init_freq_level dflt args t2 = Inr t3"
    and t4: "init_sp_level dflt args t3 = Inr s'"
    by blast
  from init_composite_method_Inr [OF t1] obtain mc1 where
    cm: "t1 = s\<lparr>self_composite_method := Some (str_lower (composite_method args)),
                 self_model_chemistry := mc1\<rparr>"
    by blast
  have e1: "self_model_chemistry t1 = mc1"
    by (simp add: cm)
  from init_composite_method_Inr [OF t1] have
    mc1: "mc1 = self_model_chemistry s \<or>
          mc1 = ''cbs-qb3'' \<and> str_lower (composite_method args) = ''cbs-qb3''"
    unfolding e1 by blast
  have cbs: "str_lower (composite_method args) = ''cbs-qb3'' \<longrightarrow> mc1 = ''cbs-qb3''"
    using init_composite_method_cbs [OF t1] e1 by simp
  from init_opt_level_Inr [OF t2] obtain vo where
    vo: "t2 = t1\<lparr>self_opt_level := Some vo\<rparr>" "is_lowercased vo"
    by blast
  from init_freq_level_Inr [OF t3] obtain vf where
    vf: "t3 = t2\<lparr>self_freq_level := Some vf\<rparr>" "is_lowercased vf"
    by blast
  from init_sp_level_Inr [OF t4] obtain vs mc2 lg2 where
    vs: "s' = t3\<lparr>self_sp_level := Some vs, self_model_chemistry := mc2, logged := lg2\<rparr>"
      "is_lowercased vs"
    by blast
  have e2: "self_model_chemistry s' = mc2"
    by (simp add: vs(1))
  from init_sp_level_Inr [OF t4] have
    mc2: "sp_level args \<noteq> [] \<or> self_composite_method t3 = Some [] \<longrightarrow> is_lowercased mc2"
      "is_lowercased (self_model_chemistry t3) \<longrightarrow> is_lowercased mc2"
    unfolding e2 by blast+
  have cbs_low: "is_lowercased ''cbs-qb3''"
    by (simp add: is_lowercased_def str_lower_def lower_char_def)
  have l: "levels_lowercased s'"
    using assms(2) vo(2) vf(2) vs(2)
    by (simp add: vs(1) vf(1) vo(1) cm levels_lowercased_def lowercased_simps is_lowercased_lower)
  have t3mc: "self_model_chemistry t3 = mc1" "self_composite_method t3 = Some (str_lower (composite_method args))"
    by (simp_all add: vf(1) vo(1) cm)
  have smc: "self_model_chemistry s' = mc2"
    by (simp add: vs(1))
  have a: "is_lowercased (self_model_chemistry s) \<longrightarrow> is_lowercased (self_model_chemistry s')"
    using mc1 mc2(2) cbs_low by (auto simp: t3mc smc)
  have b: "sp_level args \<noteq> [] \<or> composite_method args = [] \<or>
             str_lower (composite_method args) = ''cbs-qb3'' \<longrightarrow>
          is_lowercased (self_model_chemistry s')"
    using mc2 cbs cbs_low by (auto simp: t3mc smc str_lower_def)
  from l a b show ?thesis by blast
qed

text \<open>
  Claim C9, as amended: whenever the construction succeeds, each of \<open>conformer_level\<close>,
  \<open>composite_method\<close>, \<open>opt_level\<close>, \<open>freq_level\<close>, \<open>sp_level\<close> and \<open>scan_level\<close> that was
  assigned is empty or fully lowercased; \<open>model_chemistry\<close> is empty or fully lowercased
  when it was given so (or not given at all), or when no \<open>level_of_theory\<close> was given and
  the model chemistry went through \<open>check_model_chemistry\<close> (an sp level given, or no
  composite method) or was taken from the composite method \<open>cbs-qb3\<close>.
\<close>

theorem resolved_levels_lowercased:
  assumes "init dflt args = Inr self"
  shows "lowercased_if_assigned (self_conformer_level self)
       \<and> lowercased_if_assigned (self_composite_method self)
       \<and> lowercased_if_assigned (self_opt_level self)
       \<and> lowercased_if_assigned (self_freq_level self)
       \<and> lowercased_if_assigned (self_sp_level self)
       \<and> lowercased_if_assigned (self_scan_level self)
       \<and> (is_lowercased (model_chemistry args) \<or>
          level_of_theory args = [] \<and>
            (sp_level args \<noteq> [] \<or> composite_method args = [] \<or>
             str_lower (composite_method args) = ''cbs-qb3'') \<longrightarrow>
          is_lowercased (self_model_chemistry self))"
proof -
  from init_Inr_stages [OF assms] obtain s1 s2 s3 where
    s1: "init_conformer_level dflt args (init_flags args) = Inr s1"
    and s2: "init_levels dflt args s1 = Inr s2"
    and s3: "init_scan_level dflt args s2 = Inr s3"
    and s4: "init_lists args s3 = Inr self"
    by blast
  from init_conformer_level_Inr [OF s1] obtain vc where
    vc: "s1 = (init_flags args)\<lparr>self_conformer_level := Some vc\<rparr>" "is_lowercased vc"
    by blast
  have l1: "levels_lowercased s1"
    using vc(2) init_flags_simps(5) [of args]
    by (simp add: vc(1) levels_lowercased_def lowercased_simps)
  have m1: "self_model_chemistry s1 = model_chemistry args"
    by (simp add: vc(1) init_flags_simps)
  note lv = init_levels_Inr [OF s2 l1]
  from init_scan_level_Inr [OF s3] obtain vn where
    vn: "s3 = s2\<lparr>self_scan_level := Some vn\<rparr>" "is_lowercased vn"
    by blast
  from init_lists_Inr [OF s4] obtain a b c d where
    fin: "self = s3\<lparr>self_arc_species_list := a, self_rmg_species_list := b,
                      self_rxn_list := c, self_scheduler := d\<rparr>"
    by blast
  have l: "levels_lowercased self"
    using lv vn(2) by (simp add: fin vn(1) levels_lowercased_def lowercased_simps)
  have m: "self_model_chemistry self = self_model_chemistry s2"
    by (simp add: fin vn(1))
  from l lv show ?thesis
    by (auto simp: levels_lowercased_def m m1)
qed

text \<open>An object that is constructed from an opt level in upper case.\<close>

theorem resolved_levels_lowercased_witness:
  "error_of (init default_levels_of_theory args_opt_only) = None
   \<and> is_lowercased (model_chemistry args_opt_only)
   \<and> map_sum fst (\<lambda>self. is_lowercased (self_model_chemistry self) \<and> levels_lowercased self)
       (init default_levels_of_theory args_opt_only) = Inr True"
proof -
  obtain self where ok: "init default_levels_of_theory args_opt_only = Inr self"
    using init_args_opt_only by blast
  have h: "is_lowercased (model_chemistry args_opt_only)"
    by (simp add: args_opt_only_def default_args_def is_lowercased_Nil)
  show ?thesis
    using resolved_levels_lowercased [OF ok] h ok
    by (simp add: error_of_def levels_lowercased_def)
qed

text \<open>
  Claim C9 as it is stated: with the composite method \<open>G3\<close>, \<open>use_bac\<close> off and the model
  chemistry \<open>G3\<close>, the construction succeeds and the model chemistry is stored as it was
  given, in upper case.
\<close>

theorem model_chemistry_not_lowercased_counterexample:
  "init default_levels_of_theory args_composite =
   Inr \<lparr>self_project = ''p'', self_fine = True, self_generate_conformers = True,
        self_scan_rotors = True, self_use_bac = False,
        self_model_chemistry = ''G3'',
        self_conformer_level = Some ''b97-d3/6-311+g(d,p)'',
        self_composite_method = Some ''g3'',
        self_opt_level = Some [],
        self_freq_level = Some ''b3lyp/cbsb7'',
        self_sp_level = Some [],
        self_scan_level = Some ''b3lyp/6-311+g(d,p)'',
        self_arc_species_list = Some [], self_rmg_species_list = Some [],
        self_rxn_list = Some [], self_scheduler = Some False, logged = []\<rparr>
   \<and> ''G3'' \<noteq> []
   \<and> \<not> is_lowercased ''G3''"
  by (simp add: init_args_composite) (simp add: is_lowercased_def str_lower_def lower_char_def)

section \<open>The type checks of the species and reaction lists\<close>

lemma error_of_simps:
  "error_of (Inl (e, s)) = Some e" "error_of (Inr x) = None"
  by (simp_all add: error_of_def)

lemma error_of_and_then_Inl: "error_of r = Some e \<Longrightarrow> error_of (and_then r f) = Some e"
  by (cases r) (auto simp: error_of_def and_then_def)

lemma error_of_None_iff: "error_of r = None \<longleftrightarrow> (\<exists>x. r = Inr x)"
  by (cases r) (auto simp: error_of_def)

lemma init_rmg_species_first_bad:
  "find (\<lambda>x. \<not> (is_Species x \<and> label x \<noteq> [])) xs = Some x \<Longrightarrow> \<not> is_Species x \<Longrightarrow>
   self_arc_species_list s \<noteq> None \<Longrightarrow>
   error_of (init_rmg_species xs s) = Some (InputError (Not_RMG_Species x))"
proof (induction xs arbitrary: s)
  case Nil
  then show ?case by simp
next
  case (Cons y ys)
  show ?case
  proof (cases "is_Species y \<and> label y \<noteq> []")
    case True
    with Cons.prems have f: "find (\<lambda>x. \<not> (is_Species x \<and> label x \<noteq> [])) ys = Some x"
      by simp
    from Cons.prems(3) obtain l where l: "self_arc_species_list s = Some l"
      by auto
    have "error_of (init_rmg_species ys
            (s\<lparr>self_arc_species_list := Some (l @ [ARCSpecies False (label y)])\<rparr>)) =
          Some (InputError (Not_RMG_Species x))"
      using Cons.IH [OF f Cons.prems(2)] by simp
    with True l show ?thesis by simp
  next
    case False
    with Cons.prems have "x = y"
      by simp
    with Cons.prems(2) show ?thesis
      by (simp add: error_of_simps)
  qed
qed

lemma execute_check_species_first_bad:
  "find (\<lambda>x. \<not> is_ARCSpecies x) xs = Some x \<Longrightarrow>
   execute_check_species xs s = Inl (ValueError (Not_ARCSpecies x), s)"
  by (induction xs) (auto split: if_splits)

lemma execute_check_species_all_good:
  "find (\<lambda>x. \<not> is_ARCSpecies x) xs = None \<Longrightarrow> execute_check_species xs s = Inr s"
  by (induction xs) (auto split: if_splits)

lemma execute_check_rxns_first_bad:
  "find (\<lambda>x. \<not> is_Reaction x) xs = Some x \<Longrightarrow>
   execute_check_rxns xs s =
     Inl (ValueError Not_Reaction, s\<lparr>logged := logged s @ [Error_not_reaction x]\<rparr>)"
  by (induction xs) (auto split: if_splits)

lemma find_bad_exists: "\<exists>x\<in>set xs. \<not> P x \<Longrightarrow> \<exists>y. find (\<lambda>x. \<not> P x) xs = Some y"
  by (cases "find (\<lambda>x. \<not> P x) xs") (auto simp: find_None_iff)

lemma execute_wrong_species:
  assumes "self_arc_species_list self = Some spcs"
    and "find (\<lambda>x. \<not> is_ARCSpecies x) spcs = Some x"
  shows "execute self = Inl (ValueError (Not_ARCSpecies x), self)"
  using assms execute_check_species_first_bad [OF assms(2), of self]
  by (simp add: execute_def getattr_def and_then_def)

lemma execute_wrong_rxn:
  assumes "self_arc_species_list self = Some spcs"
    and "find (\<lambda>x. \<not> is_ARCSpecies x) spcs = None"
    and "self_rxn_list self = Some rxns"
    and "find (\<lambda>x. \<not> is_Reaction x) rxns = Some x"
  shows "execute self =
           Inl (ValueError Not_Reaction, self\<lparr>logged := logged self @ [Error_not_reaction x]\<rparr>)"
  using assms execute_check_species_all_good [OF assms(2), of self]
    execute_check_rxns_first_bad [OF assms(4), of self]
  by (simp add: execute_def getattr_def and_then_def)

lemma init_wrong_rmg_species:
  assumes "init_resolve dflt args = Inr s0"
    and "find (\<lambda>x. \<not> (is_Species x \<and> label x \<noteq> [])) (rmg_species_list args) = Some x"
    and "\<not> is_Species x"
  shows "error_of (init dflt args) = Some (InputError (Not_RMG_Species x))"
proof -
  have "error_of (init_rmg_species (rmg_species_list args)
          (s0\<lparr>self_arc_species_list := Some (arc_species_list args),
               self_rmg_species_list := Some (rmg_species_list args)\<rparr>)) =
        Some (InputError (Not_RMG_Species x))"
    using assms(2,3) by (intro init_rmg_species_first_bad) simp_all
  then show ?thesis
    using assms(1) by (simp add: init_def and_then_step init_lists_def error_of_and_then_Inl)
qed

lemma wrong_types_never_reach_scheduler:
  assumes "(\<exists>x\<in>set (rmg_species_list args). \<not> is_Species x)
         \<or> (\<exists>x\<in>set (arc_species_list args). \<not> is_ARCSpecies x)
         \<or> (\<exists>x\<in>set (rxn_list args). \<not> is_Reaction x)"
  shows "error_of (construct_and_execute dflt args) \<noteq> None"
proof (cases "init dflt args")
  case (Inl e)
  then show ?thesis
    by (cases e) (simp add: construct_and_execute_def and_then_def error_of_def)
next
  case (Inr self)
  from init_Inr_stages [OF Inr] obtain s3 where s4: "init_lists args s3 = Inr self"
    by blast
  note fin = init_lists_Inr [OF s4]
  from fin have lists:
    "self_arc_species_list self =
       Some (arc_species_list args @ map (\<lambda>x. ARCSpecies False (label x)) (rmg_species_list args))"
    "self_rxn_list self = Some (rxn_list args)"
    and rmg: "\<forall>x\<in>set (rmg_species_list args). is_Species x \<and> label x \<noteq> []"
    by simp_all
  let ?spcs = "arc_species_list args @ map (\<lambda>x. ARCSpecies False (label x)) (rmg_species_list args)"
  have run: "construct_and_execute dflt args = execute self"
    using Inr by (simp add: construct_and_execute_def and_then_def)
  show ?thesis
  proof (cases "find (\<lambda>x. \<not> is_ARCSpecies x) ?spcs")
    case (Some y)
    from execute_wrong_species [OF lists(1) Some] show ?thesis
      by (simp add: run error_of_simps)
  next
    case None
    then have "\<forall>x\<in>set (arc_species_list args). is_ARCSpecies x"
      by (auto simp: find_None_iff)
    with assms rmg have "\<exists>x\<in>set (rxn_list args). \<not> is_Reaction x"
      by blast
    then obtain z where "find (\<lambda>x. \<not> is_Reaction x) (rxn_list args) = Some z"
      using find_bad_exists [of "rxn_list args" is_Reaction] by blast
    from execute_wrong_rxn [OF lists(1) None lists(2) this] show ?thesis
      by (simp add: run error_of_simps)
  qed
qed

text \<open>
  Claim C8, as amended: whenever \<open>rmg_species_list\<close> holds an entry that is not an RMG
  \<open>Species\<close>, or \<open>arc_species_list\<close> one that is not an \<open>ARCSpecies\<close>, or \<open>rxn_list\<close> one that
  is not a \<open>Reaction\<close>, constructing the object and executing it stops with an error
  before \<open>Scheduler\<close> is called. The error is the type-mismatch error of the first
  offending entry whenever that entry is reached: at construction, once the levels of
  theory are resolved, the InputError of line 195 for the first entry of
  \<open>rmg_species_list\<close> that is not a labelled \<open>Species\<close>, if it is not a \<open>Species\<close>; in
  \<open>execute\<close>, the ValueError of line 210 for the first entry of the species list that is
  not an \<open>ARCSpecies\<close>, and otherwise the ValueError of line 217, with the entry logged,
  for the first entry of \<open>rxn_list\<close> that is not a \<open>Reaction\<close>.
\<close>

theorem wrong_types_rejected:
  "((\<exists>x\<in>set (rmg_species_list args). \<not> is_Species x)
     \<or> (\<exists>x\<in>set (arc_species_list args). \<not> is_ARCSpecies x)
     \<or> (\<exists>x\<in>set (rxn_list args). \<not> is_Reaction x) \<longrightarrow>
    error_of (construct_and_execute dflt args) \<noteq> None)
   \<and> (init_resolve dflt args = Inr s0 \<longrightarrow>
      find (\<lambda>x. \<not> (is_Species x \<and> label x \<noteq> [])) (rmg_species_list args) = Some x \<longrightarrow>
      \<not> is_Species x \<longrightarrow>
      error_of (init dflt args) = Some (InputError (Not_RMG_Species x)))
   \<and> (self_arc_species_list self = Some spcs \<longrightarrow>
      find (\<lambda>x. \<not> is_ARCSpecies x) spcs = Some y \<longrightarrow>
      execute self = Inl (ValueError (Not_ARCSpecies y), self))
   \<and> (self_arc_species_list self' = Some spcs' \<longrightarrow>
      find (\<lambda>x. \<not> is_ARCSpecies x) spcs' = None \<longrightarrow>
      self_rxn_list self' = Some rxns \<longrightarrow>
      find (\<lambda>x. \<not> is_Reaction x) rxns = Some z \<longrightarrow>
      execute self' =
        Inl (ValueError Not_Reaction, self'\<lparr>logged := logged self' @ [Error_not_reaction z]\<rparr>))"
  using wrong_types_never_reach_scheduler [of args dflt]
    init_wrong_rmg_species [of dflt args s0 x]
    execute_wrong_species [of self spcs y]
    execute_wrong_rxn [of self' spcs' rxns z]
  by blast

text \<open>The constructor evaluated on the lists with entries of the wrong type.\<close>

lemma init_args_unlabelled:
  "error_of (init default_levels_of_theory args_unlabelled) =
     Some (InputError (Missing_label (Species [])))"
  by (simp add: args_unlabelled_def error_of_def init_defs)

lemma init_resolve_args_wrong_types:
  "error_of (init_resolve default_levels_of_theory args_wrong_types) = None"
  by (simp add: args_wrong_types_def error_of_def init_defs)

lemma init_args_wrong_species:
  "init default_levels_of_theory args_wrong_species = Inr self_wrong_species"
  by (simp add: args_wrong_species_def self_wrong_species_def init_defs)

lemma init_args_wrong_rxn:
  "init default_levels_of_theory args_wrong_rxn = Inr self_wrong_rxn"
  by (simp add: args_wrong_rxn_def self_wrong_rxn_def init_defs)

text \<open>
  An integer after a labelled species in \<open>rmg_species_list\<close>, an RMG species in the
  species list of \<open>execute\<close>, and a string in \<open>rxn_list\<close> are each refused with their
  type-mismatch error.
\<close>

theorem wrong_types_rejected_witness:
  "\<not> is_Species (Other ''int'')
   \<and> error_of (init_resolve default_levels_of_theory args_wrong_types) = None
   \<and> find (\<lambda>x. \<not> (is_Species x \<and> label x \<noteq> [])) (rmg_species_list args_wrong_types) =
       Some (Other ''int'')
   \<and> error_of (construct_and_execute default_levels_of_theory args_wrong_types) \<noteq> None
   \<and> error_of (init default_levels_of_theory args_wrong_types) =
       Some (InputError (Not_RMG_Species (Other ''int'')))
   \<and> init default_levels_of_theory args_wrong_species = Inr self_wrong_species
   \<and> find (\<lambda>x. \<not> is_ARCSpecies x) [ARCSpecies False ''H2O'', Species ''OH''] = Some (Species ''OH'')
   \<and> execute self_wrong_species =
       Inl (ValueError (Not_ARCSpecies (Species ''OH'')), self_wrong_species)
   \<and> init default_levels_of_theory args_wrong_rxn = Inr self_wrong_rxn
   \<and> find (\<lambda>x. \<not> is_ARCSpecies x) [ARCSpecies False ''H2O''] = None
   \<and> find (\<lambda>x. \<not> is_Reaction x) [Reaction ''H2O <=> H + OH'', Other ''str''] = Some (Other ''str'')
   \<and> execute self_wrong_rxn =
       Inl (ValueError Not_Reaction,
            self_wrong_rxn\<lparr>logged := logged self_wrong_rxn @ [Error_not_reaction (Other ''str'')]\<rparr>)"
proof -
  obtain s0 where h0: "init_resolve default_levels_of_theory args_wrong_types = Inr s0"
    using init_resolve_args_wrong_types by (auto simp: error_of_None_iff)
  have h1: "find (\<lambda>x. \<not> (is_Species x \<and> label x \<noteq> [])) (rmg_species_list args_wrong_types) =
       Some (Other ''int'')"
    by (simp add: args_wrong_types_def default_args_def)
  have h2: "\<not> is_Species (Other ''int'')"
    by simp
  have h3: "(\<exists>x\<in>set (rmg_species_list args_wrong_types). \<not> is_Species x)
     \<or> (\<exists>x\<in>set (arc_species_list args_wrong_types). \<not> is_ARCSpecies x)
     \<or> (\<exists>x\<in>set (rxn_list args_wrong_types). \<not> is_Reaction x)"
    by (simp add: args_wrong_types_def default_args_def)
  have h4: "self_arc_species_list self_wrong_species = Some [ARCSpecies False ''H2O'', Species ''OH'']"
    by (simp add: self_wrong_species_def)
  have h5: "find (\<lambda>x. \<not> is_ARCSpecies x) [ARCSpecies False ''H2O'', Species ''OH''] = Some (Species ''OH'')"
    by simp
  have h6: "self_arc_species_list self_wrong_rxn = Some [ARCSpecies False ''H2O'']"
    "self_rxn_list self_wrong_rxn = Some [Reaction ''H2O <=> H + OH'', Other ''str'']"
    by (simp_all add: self_wrong_rxn_def)
  have h7: "find (\<lambda>x. \<not> is_ARCSpecies x) [ARCSpecies False ''H2O''] = None"
    "find (\<lambda>x. \<not> is_Reaction x) [Reaction ''H2O <=> H + OH'', Other ''str''] = Some (Other ''str'')"
    by simp_all
  from wrong_types_rejected
    [of args_wrong_types default_levels_of_theory s0 "Other ''int''" self_wrong_species
        "[ARCSpecies False ''H2O'', Species ''OH'']" "Species ''OH''" self_wrong_rxn
        "[ARCSpecies False ''H2O'']" "[Reaction ''H2O <=> H + OH'', Other ''str'']" "Other ''str''"]
    h0 h1 h2 h3 h4 h5 h6 h7
  have "error_of (construct_and_execute default_levels_of_theory args_wrong_types) \<noteq> None
   \<and> error_of (init default_levels_of_theory args_wrong_types) =
       Some (InputError (Not_RMG_Species (Other ''int'')))
   \<and> execute self_wrong_species =
       Inl (ValueError (Not_ARCSpecies (Species ''OH'')), self_wrong_species)
   \<and> execute self_wrong_rxn =
       Inl (ValueError Not_Reaction,
            self_wrong_rxn\<lparr>logged := logged self_wrong_rxn @ [Error_not_reaction (Other ''str'')]\<rparr>)"
    by blast
  with h1 h2 h5 h7 init_resolve_args_wrong_types init_args_wrong_species init_args_wrong_rxn
  show ?thesis by blast
qed

text \<open>
  Claim C8 as it is stated: the second entry of \<open>rmg_species_list\<close> is an integer, but the
  first entry is a species without a label, and the construction raises the InputError
  of line 198 about the missing label, not the type-mismatch error.
\<close>

theorem wrong_type_pre_empted_counterexample:
  "index (rmg_species_list args_unlabelled) 1 = Some (Other ''int'')
   \<and> \<not> is_Species (Other ''int'')
   \<and> error_of (init default_levels_of_theory args_unlabelled) =
       Some (InputError (Missing_label (Species [])))
   \<and> error_of (init default_levels_of_theory args_unlabelled) \<noteq>
       Some (InputError (Not_RMG_Species (Other ''int'')))"
  by (simp add: init_args_unlabelled) (simp add: args_unlabelled_def default_args_def index_Cons)

end
